theory Spec2Isabelle
  imports Main "HOL-Library.AList"
begin

section \<open>JavaScript values\<close>

text \<open>
  The engine (\<^verbatim>\<open>src/components/EntityManager.jsx\<close>) and the transport adapter
  (\<^verbatim>\<open>src/api.js\<close>) handle parsed JSON and form input.  A value is one of the
  JSON shapes, or \<^verbatim>\<open>undefined\<close> (what reading a missing property gives).  The code
  never computes with a Number: it prints it, tests it for truth, hands it to
  \<^verbatim>\<open>new Date\<close> and sends it back.  A Number is therefore carried as the String that
  \<^verbatim>\<open>Number::toString\<close> gives for it (\<^verbatim>\<open>10\<close>, \<^verbatim>\<open>10.5\<close>, \<^verbatim>\<open>-3\<close>, \<^verbatim>\<open>1e+21\<close>,
  \<^verbatim>\<open>1.5e-7\<close>, \<^verbatim>\<open>Infinity\<close>, \<^verbatim>\<open>NaN\<close>), which names the Number but for the sign of
  zero, and the sign of zero is invisible to the three uses.  An object is the list of
  its own properties in insertion order; its keys are pairwise distinct.
\<close>

datatype jsval =
    JUndefined
  | JNull
  | JBool bool
  | JNum string
  | JStr string
  | JArr "jsval list"
  | JObj "(string \<times> jsval) list"

type_synonym obj = "(string \<times> jsval) list"

text \<open>\<^verbatim>\<open>o[k]\<close> on an object: the property's value, \<^verbatim>\<open>undefined\<close> when absent.\<close>

definition get :: "obj \<Rightarrow> string \<Rightarrow> jsval" where
  "get ob k = (case map_of ob k of None \<Rightarrow> JUndefined | Some v \<Rightarrow> v)"

text \<open>
  \<^verbatim>\<open>o[k] = v\<close>, and a spread followed by one computed key
  (\<^verbatim>\<open>{...prev, [k]: v}\<close>): an existing key keeps its place, a new one goes last.
\<close>

definition set_prop :: "string \<Rightarrow> jsval \<Rightarrow> obj \<Rightarrow> obj" where
  "set_prop k v ob = AList.update k v ob"

text \<open>\<^verbatim>\<open>ToBoolean\<close>: what \<^verbatim>\<open>if (x)\<close>, \<^verbatim>\<open>x && y\<close> and \<^verbatim>\<open>x || y\<close> test.\<close>

fun truthy :: "jsval \<Rightarrow> bool" where
  "truthy JUndefined = False"
| "truthy JNull = False"
| "truthy (JBool b) = b"
| "truthy (JNum n) = (n \<noteq> ''0'' \<and> n \<noteq> ''NaN'')"
| "truthy (JStr s) = (s \<noteq> [])"
| "truthy (JArr xs) = True"
| "truthy (JObj kvs) = True"

definition digit_char :: "nat \<Rightarrow> char" where
  "digit_char n = ''0123456789'' ! (n mod 10)"

definition is_digit :: "char \<Rightarrow> bool" where
  "is_digit c = (c \<in> set ''0123456789'')"

definition digit_val :: "char \<Rightarrow> int" where
  "digit_val c =
     (case map_of (zip ''0123456789'' [0, 1, 2, 3, 4, 5, 6, 7, 8, 9]) c of
        Some v \<Rightarrow> v
      | None \<Rightarrow> 0)"

text \<open>\<^verbatim>\<open>pad k n\<close>: the last \<open>k\<close> decimal digits of \<open>n\<close>, zero-padded (\<^verbatim>\<open>padStart(k, "0")\<close>
  of a number that has at most \<open>k\<close> digits).\<close>

fun pad :: "nat \<Rightarrow> nat \<Rightarrow> string" where
  "pad 0 n = []"
| "pad (Suc k) n = pad k (n div 10) @ [digit_char n]"

fun intercalate :: "string \<Rightarrow> string list \<Rightarrow> string" where
  "intercalate sep [] = []"
| "intercalate sep [x] = x"
| "intercalate sep (x # y # ys) = x @ sep @ intercalate sep (y # ys)"

text \<open>
  \<^verbatim>\<open>ToString\<close>, as a template literal, \<^verbatim>\<open>new Error(v)\<close> and \<^verbatim>\<open>Array.prototype.join\<close>
  apply it.  An array prints as its elements joined by commas, an object of parsed JSON as
  \<^verbatim>\<open>[object Object]\<close>.
\<close>

fun ToString :: "jsval \<Rightarrow> string" where
  "ToString JUndefined = ''undefined''"
| "ToString JNull = ''null''"
| "ToString (JBool b) = (if b then ''true'' else ''false'')"
| "ToString (JNum n) = n"
| "ToString (JStr s) = s"
| "ToString (JArr xs) =
     intercalate '','' (map (\<lambda>x. if x = JUndefined \<or> x = JNull then [] else ToString x) xs)"
| "ToString (JObj kvs) = ''[object Object]''"

text \<open>\<^verbatim>\<open>xs.join(sep)\<close>: \<^verbatim>\<open>undefined\<close> and \<^verbatim>\<open>null\<close> elements print as the empty string.\<close>

definition join :: "string \<Rightarrow> jsval list \<Rightarrow> string" where
  "join sep xs =
     intercalate sep (map (\<lambda>x. if x = JUndefined \<or> x = JNull then [] else ToString x) xs)"

text \<open>\<^verbatim>\<open>s.split(c)[0]\<close> for a one-character separator: what stands before its first
  occurrence (the whole string when it does not occur).\<close>

definition split_first :: "char \<Rightarrow> string \<Rightarrow> string" where
  "split_first c s = takeWhile (\<lambda>x. x \<noteq> c) s"

datatype js_error =
    Error (message: string)
  | TypeError (message: string)
  | SyntaxError (message: string)
  | RangeError (message: string)

section \<open>The Date built-in\<close>

text \<open>
  \<^verbatim>\<open>handleEdit\<close> calls \<^verbatim>\<open>new Date(v).toISOString().split("T")[0]\<close>.  The time
  arithmetic follows ECMA-262 (Time Values and Time Range, \<^verbatim>\<open>MakeDay\<close>,
  \<^verbatim>\<open>MakeDate\<close>, \<^verbatim>\<open>TimeClip\<close>, \<^verbatim>\<open>Date.prototype.toISOString\<close>); a time value is
  an integer number of milliseconds since the epoch, \<open>None\<close> stands for \<^verbatim>\<open>NaN\<close>.
\<close>

definition msPerDay :: int where "msPerDay = 86400000"
definition msPerHour :: int where "msPerHour = 3600000"
definition msPerMinute :: int where "msPerMinute = 60000"
definition msPerSecond :: int where "msPerSecond = 1000"

definition Day :: "int \<Rightarrow> int" where
  "Day t = t div msPerDay"

definition TimeWithinDay :: "int \<Rightarrow> int" where
  "TimeWithinDay t = t mod msPerDay"

definition DaysInYear :: "int \<Rightarrow> int" where
  "DaysInYear y =
     (if y mod 4 \<noteq> 0 then 365
      else if y mod 100 \<noteq> 0 then 366
      else if y mod 400 \<noteq> 0 then 365
      else 366)"

definition DayFromYear :: "int \<Rightarrow> int" where
  "DayFromYear y =
     365 * (y - 1970) + (y - 1969) div 4 - (y - 1901) div 100 + (y - 1601) div 400"

definition TimeFromYear :: "int \<Rightarrow> int" where
  "TimeFromYear y = msPerDay * DayFromYear y"

text \<open>
  ECMA-262 specifies \<^verbatim>\<open>YearFromTime(t)\<close> as the largest \<open>y\<close> with
  \<^verbatim>\<open>TimeFromYear(y) \<le> t\<close>.  It is computed from the mean length of a Gregorian year
  (146097 days in 400 years) and corrected by at most one year; lemma
  \<open>YearFromTime_bounds\<close> below shows that the result is the specified one.
\<close>

definition YearFromDay :: "int \<Rightarrow> int" where
  "YearFromDay d =
     (let y = 1970 + (d * 400) div 146097
      in if d < DayFromYear y then y - 1
         else if DayFromYear (y + 1) \<le> d then y + 1
         else y)"

definition YearFromTime :: "int \<Rightarrow> int" where
  "YearFromTime t = YearFromDay (Day t)"

definition InLeapYear :: "int \<Rightarrow> int" where
  "InLeapYear t = (if DaysInYear (YearFromTime t) = 365 then 0 else 1)"

definition DayWithinYear :: "int \<Rightarrow> int" where
  "DayWithinYear t = Day t - DayFromYear (YearFromTime t)"

text \<open>\<^verbatim>\<open>MonthFromTime\<close> and \<^verbatim>\<open>DateFromTime\<close>, as tables over the day within the year
  \<open>d\<close> and the leap-year flag \<open>l\<close>; months count from 0.\<close>

definition month_of :: "int \<Rightarrow> int \<Rightarrow> int" where
  "month_of l d =
     (if d < 31 then 0
      else if d < 59 + l then 1
      else if d < 90 + l then 2
      else if d < 120 + l then 3
      else if d < 151 + l then 4
      else if d < 181 + l then 5
      else if d < 212 + l then 6
      else if d < 243 + l then 7
      else if d < 273 + l then 8
      else if d < 304 + l then 9
      else if d < 334 + l then 10
      else 11)"

definition month_start :: "int \<Rightarrow> int \<Rightarrow> int" where
  "month_start l m =
     (if m = 0 then 0
      else if m = 1 then 31
      else if m = 2 then 59 + l
      else if m = 3 then 90 + l
      else if m = 4 then 120 + l
      else if m = 5 then 151 + l
      else if m = 6 then 181 + l
      else if m = 7 then 212 + l
      else if m = 8 then 243 + l
      else if m = 9 then 273 + l
      else if m = 10 then 304 + l
      else 334 + l)"

definition MonthFromTime :: "int \<Rightarrow> int" where
  "MonthFromTime t = month_of (InLeapYear t) (DayWithinYear t)"

definition DateFromTime :: "int \<Rightarrow> int" where
  "DateFromTime t =
     DayWithinYear t - month_start (InLeapYear t) (MonthFromTime t) + 1"

definition HourFromTime :: "int \<Rightarrow> int" where
  "HourFromTime t = (t div msPerHour) mod 24"

definition MinFromTime :: "int \<Rightarrow> int" where
  "MinFromTime t = (t div msPerMinute) mod 60"

definition SecFromTime :: "int \<Rightarrow> int" where
  "SecFromTime t = (t div msPerSecond) mod 60"

definition msFromTime :: "int \<Rightarrow> int" where
  "msFromTime t = t mod msPerSecond"

definition MakeTime :: "int \<Rightarrow> int \<Rightarrow> int \<Rightarrow> int \<Rightarrow> int" where
  "MakeTime hour minute sec ms =
     hour * msPerHour + minute * msPerMinute + sec * msPerSecond + ms"

text \<open>\<^verbatim>\<open>MakeDay\<close> for a month in 0..11: the day number of the first of the month, plus
  the date.\<close>

definition MakeDay :: "int \<Rightarrow> int \<Rightarrow> int \<Rightarrow> int" where
  "MakeDay year month date =
     DayFromYear year + month_start (if DaysInYear year = 365 then 0 else 1) month + date - 1"

definition MakeDate :: "int \<Rightarrow> int \<Rightarrow> int" where
  "MakeDate day time = day * msPerDay + time"

definition TimeClip :: "int \<Rightarrow> int option" where
  "TimeClip t = (if abs t > 8640000000000000 then None else Some t)"

definition DaysInMonth :: "int \<Rightarrow> int \<Rightarrow> int" where
  "DaysInMonth y m =
     (if m = 2 then (if DaysInYear y = 365 then 28 else 29)
      else if m = 4 \<or> m = 6 \<or> m = 9 \<or> m = 11 then 30
      else 31)"


text \<open>
  \<^verbatim>\<open>Date.prototype.toISOString\<close>: \<^verbatim>\<open>YYYY-MM-DDTHH:mm:ss.sssZ\<close> in UTC; a year outside
  0..9999 is written with a sign and six digits; an invalid date raises a
  \<^verbatim>\<open>RangeError\<close>.
\<close>

definition iso_year :: "int \<Rightarrow> string" where
  "iso_year y =
     (if 0 \<le> y \<and> y \<le> 9999 then pad 4 (nat y)
      else (if y < 0 then ''-'' else ''+'') @ pad 6 (nat (abs y)))"

definition iso_date :: "int \<Rightarrow> string" where
  "iso_date t =
     iso_year (YearFromTime t) @ ''-'' @ pad 2 (nat (MonthFromTime t + 1)) @ ''-'' @
     pad 2 (nat (DateFromTime t))"

definition iso_time :: "int \<Rightarrow> string" where
  "iso_time t =
     pad 2 (nat (HourFromTime t)) @ '':'' @ pad 2 (nat (MinFromTime t)) @ '':'' @
     pad 2 (nat (SecFromTime t)) @ ''.'' @ pad 3 (nat (msFromTime t))"

definition toISOString :: "int option \<Rightarrow> js_error + string" where
  "toISOString tv =
     (case tv of
        None \<Rightarrow> Inl (RangeError ''Invalid time value'')
      | Some t \<Rightarrow> Inr (iso_date t @ ''T'' @ iso_time t @ ''Z''))"

text \<open>
  \<^verbatim>\<open>Date.parse\<close>.  ECMA-262 fixes the result for the Date Time String Format; the
  embedding computes it for a complete calendar date \<^verbatim>\<open>YYYY-MM-DD\<close> (UTC midnight) and
  for a date followed by \<^verbatim>\<open>THH:mm\<close>, optional \<^verbatim>\<open>:ss\<close> with optional \<^verbatim>\<open>.sss\<close>, and a
  zone (\<^verbatim>\<open>Z\<close> or \<^verbatim>\<open>+HH:mm\<close> / \<^verbatim>\<open>-HH:mm\<close>), all fields in range.  Every other
  string (a date-time without zone is local time; other shapes are parsed in an
  implementation-defined way) is left to the host, a parameter of the model.
\<close>

definition num2 :: "char \<Rightarrow> char \<Rightarrow> int" where
  "num2 a b = 10 * digit_val a + digit_val b"

definition parse_ymd :: "string \<Rightarrow> (int \<times> int \<times> int) option" where
  "parse_ymd s =
     (if length s = 10 \<and> is_digit (s ! 0) \<and> is_digit (s ! 1) \<and> is_digit (s ! 2) \<and>
         is_digit (s ! 3) \<and> s ! 4 = CHR ''-'' \<and> is_digit (s ! 5) \<and> is_digit (s ! 6) \<and>
         s ! 7 = CHR ''-'' \<and> is_digit (s ! 8) \<and> is_digit (s ! 9)
      then
        (let y = 100 * num2 (s ! 0) (s ! 1) + num2 (s ! 2) (s ! 3);
             m = num2 (s ! 5) (s ! 6);
             d = num2 (s ! 8) (s ! 9)
         in if 1 \<le> m \<and> m \<le> 12 \<and> 1 \<le> d \<and> d \<le> DaysInMonth y m
            then Some (y, m, d) else None)
      else None)"

definition parse_hm :: "string \<Rightarrow> (int \<times> int) option" where
  "parse_hm s =
     (if length s = 5 \<and> is_digit (s ! 0) \<and> is_digit (s ! 1) \<and> s ! 2 = CHR '':'' \<and>
         is_digit (s ! 3) \<and> is_digit (s ! 4) \<and>
         num2 (s ! 0) (s ! 1) \<le> 23 \<and> num2 (s ! 3) (s ! 4) \<le> 59
      then Some (num2 (s ! 0) (s ! 1), num2 (s ! 3) (s ! 4)) else None)"

text \<open>The optional milliseconds \<^verbatim>\<open>.sss\<close>: the value and the rest of the string.\<close>

fun parse_millis :: "string \<Rightarrow> (int \<times> string) option" where
  "parse_millis (c # a # b # d # r) =
     (if c = CHR ''.''
      then (if is_digit a \<and> is_digit b \<and> is_digit d
            then Some (100 * digit_val a + num2 b d, r) else None)
      else Some (0, c # a # b # d # r))"
| "parse_millis r = Some (0, r)"

text \<open>The optional seconds \<^verbatim>\<open>:ss\<close>, which the milliseconds may follow: both values and
  the rest of the string.\<close>

fun parse_seconds :: "string \<Rightarrow> (int \<times> int \<times> string) option" where
  "parse_seconds (c # a # b # r) =
     (if c = CHR '':''
      then (if is_digit a \<and> is_digit b \<and> num2 a b \<le> 59
            then (case parse_millis r of
                    None \<Rightarrow> None
                  | Some (ms, r3) \<Rightarrow> Some (num2 a b, ms, r3))
            else None)
      else Some (0, 0, c # a # b # r))"
| "parse_seconds r = Some (0, 0, r)"

text \<open>The zone, in minutes east of UTC.\<close>

definition parse_offset :: "string \<Rightarrow> int option" where
  "parse_offset s =
     (if s = ''Z'' then Some 0
      else if length s = 6 \<and> (s ! 0 = CHR ''+'' \<or> s ! 0 = CHR ''-'') \<and> is_digit (s ! 1) \<and>
              is_digit (s ! 2) \<and> s ! 3 = CHR '':'' \<and> is_digit (s ! 4) \<and> is_digit (s ! 5) \<and>
              num2 (s ! 1) (s ! 2) \<le> 23 \<and> num2 (s ! 4) (s ! 5) \<le> 59
      then Some ((if s ! 0 = CHR ''-'' then - 1 else 1) *
                 (60 * num2 (s ! 1) (s ! 2) + num2 (s ! 4) (s ! 5)))
      else None)"

text \<open>The calendar date, the time within the day in milliseconds and the zone in minutes
  that a string of the format denotes.\<close>

definition parse_iso_fields :: "string \<Rightarrow> (int \<times> int \<times> int \<times> int \<times> int) option" where
  "parse_iso_fields s =
     (case parse_ymd (take 10 s) of
        None \<Rightarrow> None
      | Some (y, m, d) \<Rightarrow>
          (case drop 10 s of
             [] \<Rightarrow> Some (y, m, d, 0, 0)
           | c # r \<Rightarrow>
               (if c \<noteq> CHR ''T'' then None
                else
                  (case parse_hm (take 5 r) of
                     None \<Rightarrow> None
                   | Some (h, mi) \<Rightarrow>
                       (case parse_seconds (drop 5 r) of
                          None \<Rightarrow> None
                        | Some (sec, ms, r3) \<Rightarrow>
                            (case parse_offset r3 of
                               None \<Rightarrow> None
                             | Some off \<Rightarrow> Some (y, m, d, MakeTime h mi sec ms, off)))))))"

definition parse_iso :: "string \<Rightarrow> int option" where
  "parse_iso s =
     (case parse_iso_fields s of
        None \<Rightarrow> None
      | Some (y, m, d, tod, off) \<Rightarrow>
          Some (MakeDate (MakeDay y (m - 1) d) tod - off * msPerMinute))"

record host =
  parse_other :: "string \<Rightarrow> int option"

definition Date_parse :: "host \<Rightarrow> string \<Rightarrow> int option" where
  "Date_parse h s =
     (case parse_iso s of
        Some t \<Rightarrow> TimeClip t
      | None \<Rightarrow> (case parse_other h s of None \<Rightarrow> None | Some t \<Rightarrow> TimeClip t))"

text \<open>
  The time value of \<^verbatim>\<open>new Date(x)\<close> for a Number \<open>x\<close>, read off the text of \<open>x\<close>:
  \<^verbatim>\<open>TimeClip\<close> of the integral part of \<open>x\<close>.  A text without leading digit is
  \<^verbatim>\<open>NaN\<close> or an infinity; one with a positive exponent is at least \<^verbatim>\<open>1e21\<close> in
  magnitude, beyond the time range; one with a negative exponent is less than
  \<^verbatim>\<open>1e-6\<close> in magnitude, so that its integral part is zero; every other text is the
  integral part, followed by the fraction if there is one.
\<close>

definition digits_val :: "string \<Rightarrow> int" where
  "digits_val ds = foldl (\<lambda>a c. 10 * a + digit_val c) 0 ds"

definition number_time :: "string \<Rightarrow> int option" where
  "number_time n =
     (let negative = (take 1 n = ''-'');
          u = (if negative then drop 1 n else n);
          integral = takeWhile is_digit u;
          rest = dropWhile is_digit u
      in if integral = [] then None
         else if CHR ''e'' \<in> set rest
         then (if CHR ''-'' \<in> set rest then Some 0 else None)
         else TimeClip ((if negative then - 1 else 1) * digits_val integral))"

text \<open>\<^verbatim>\<open>new Date(v)\<close>: a string (or what an array or object prints as) is parsed, every
  other value is converted to a number.\<close>

fun Date_new :: "host \<Rightarrow> jsval \<Rightarrow> int option" where
  "Date_new h (JStr s) = Date_parse h s"
| "Date_new h (JNum n) = number_time n"
| "Date_new h (JBool b) = Some (if b then 1 else 0)"
| "Date_new h JNull = Some 0"
| "Date_new h JUndefined = None"
| "Date_new h (JArr xs) = Date_parse h (ToString (JArr xs))"
| "Date_new h (JObj kvs) = Date_parse h (ToString (JObj kvs))"

section \<open>The transport adapter (\<^verbatim>\<open>src/api.js\<close>)\<close>

definition API_BASE_URL :: string where
  "API_BASE_URL = ''http://localhost:5000/api''"

record request =
  url :: string
  http_method :: string
  headers :: "(string \<times> string) list"
  body :: "jsval option"

text \<open>
  What the network answers to one \<^verbatim>\<open>fetch\<close>: the promise rejects (no response), or a
  response arrives with its \<^verbatim>\<open>ok\<close> flag and \<^verbatim>\<open>response.json()\<close> either rejects
  (the body is not JSON) or yields the parsed body.
\<close>

datatype fetch_result =
    FetchRejected js_error
  | JsonRejected bool js_error
  | Responded bool jsval

datatype effect =
    Fetch request
  | ConsoleError string js_error
  | Alert string
  | Confirm string

text \<open>\<^verbatim>\<open>result.error\<close>: reading a property of \<^verbatim>\<open>null\<close> raises a \<^verbatim>\<open>TypeError\<close> (the
  wording is the engine's; V8's is used); a string, number, boolean or array has no
  such property.\<close>

definition read_error :: "jsval \<Rightarrow> js_error + jsval" where
  "read_error result =
     (case result of
        JObj kvs \<Rightarrow> Inr (get kvs ''error'')
      | JNull \<Rightarrow>
          Inl (TypeError (''Cannot read properties of null (reading '' @ [CHR 0x27] @ ''error'' @
                          [CHR 0x27] @ '')''))
      | JUndefined \<Rightarrow>
          Inl (TypeError (''Cannot read properties of undefined (reading '' @ [CHR 0x27] @
                          ''error'' @ [CHR 0x27] @ '')''))
      | _ \<Rightarrow> Inr JUndefined)"

text \<open>\<^verbatim>\<open>a || b\<close>\<close>

definition js_or :: "jsval \<Rightarrow> jsval \<Rightarrow> jsval" where
  "js_or a b = (if truthy a then a else b)"

text \<open>
  \<^verbatim>\<open>apiCall(endpoint, method, data)\<close> against the network's answer \<open>fr\<close>: the value
  returned or the error thrown, and the effects in order.  The body is kept as the
  value that \<^verbatim>\<open>JSON.stringify\<close> serialises.
\<close>

text \<open>The body of the \<^verbatim>\<open>try\<close> block once \<^verbatim>\<open>fetch\<close> has settled: the value it
  returns, or the error it throws.\<close>

definition response_outcome :: "fetch_result \<Rightarrow> js_error + jsval" where
  "response_outcome fr =
     (case fr of
        FetchRejected e \<Rightarrow> Inl e
      | JsonRejected ok e \<Rightarrow> Inl e
      | Responded ok result \<Rightarrow>
          (if \<not> ok
           then (case read_error result of
                   Inl e \<Rightarrow> Inl e
                 | Inr v \<Rightarrow> Inl (Error (ToString (js_or v (JStr ''Something went wrong'')))))
           else Inr result))"

definition apiCall ::
  "string \<Rightarrow> string \<Rightarrow> jsval \<Rightarrow> fetch_result \<Rightarrow> (js_error + jsval) \<times> effect list" where
  "apiCall endpoint method data fr =
     (let url = API_BASE_URL @ endpoint;
          options = \<lparr>url = url, http_method = method,
                     headers = [(''Content-Type'', ''application/json'')],
                     body = (if truthy data then Some data else None)\<rparr>
      in case response_outcome fr of
           Inr result \<Rightarrow> (Inr result, [Fetch options])
         | Inl error \<Rightarrow>
             (Inl error,
              [Fetch options,
               ConsoleError (''API Call Error ('' @ method @ '' '' @ url @ ''):'') error]))"


section \<open>The entity manager (\<^verbatim>\<open>src/components/EntityManager.jsx\<close>)\<close>

text \<open>The props of the component: one entity schema.\<close>

record field =
  name :: string
  label :: string
  type :: string
  placeholder :: "string option"
  required :: bool
  options :: "(string \<times> string) list"
  defaultValue :: "string option"

record props =
  title :: string
  entityName :: string
  endpoint :: string
  formFields :: "field list"
  idField :: string
  displayFields :: "(string \<times> string) list"
  uniqueIdentifierFields :: "string list"

text \<open>The seven \<^verbatim>\<open>useState\<close> cells.  \<open>isEditing\<close> is the mode (Edit when true),
  \<open>formData\<close> the draft, \<open>entities\<close> the records, \<open>editIdentifier\<close> the identifier
  captured when editing starts.\<close>

record state =
  entities :: jsval
  formData :: obj
  loading :: bool
  error :: string
  isEditing :: bool
  editId :: jsval
  editIdentifier :: obj

definition initial_state :: state where
  "initial_state =
     \<lparr>entities = JArr [], formData = [], loading = True, error = [], isEditing = False,
      editId = JNull, editIdentifier = []\<rparr>"

text \<open>
  A handler runs against the answers the network gives to the requests it sends, and
  returns the final state with its trace: every effect, in order, paired with the state
  the component holds at the moment of the effect.  Here the handler runs alone: its request
  is in flight from its \<open>Fetch\<close> until the handler resumes, and nothing else runs in
  between.  The handlers interleaved are modelled further down.
\<close>

type_synonym trace = "(state \<times> effect) list"

definition fetchEntities :: "props \<Rightarrow> fetch_result \<Rightarrow> state \<Rightarrow> state \<times> trace" where
  "fetchEntities p fr s =
     (let s1 = s\<lparr>loading := True\<rparr>;
          s2 = s1\<lparr>error := []\<rparr>;
          (res, fx) = apiCall (endpoint p) ''GET'' JNull fr;
          s3 = (case res of
                  Inr data \<Rightarrow> s2\<lparr>entities := data\<rparr>
                | Inl err \<Rightarrow>
                    s2\<lparr>error := ''Failed to fetch '' @ entityName p @ ''s: '' @ message err\<rparr>);
          s4 = s3\<lparr>loading := False\<rparr>
      in (s4, map (Pair s2) fx))"

text \<open>\<^verbatim>\<open>handleInputChange\<close>, on the event target's \<^verbatim>\<open>name\<close>, \<^verbatim>\<open>value\<close>, \<^verbatim>\<open>type\<close>
  and \<^verbatim>\<open>checked\<close>.\<close>

definition handleInputChange :: "string \<Rightarrow> string \<Rightarrow> string \<Rightarrow> bool \<Rightarrow> state \<Rightarrow> state" where
  "handleInputChange nm val ty checked s =
     s\<lparr>formData := set_prop nm (if ty = ''checkbox'' then JBool checked else JStr val) (formData s)\<rparr>"

definition identifierPath :: "string list \<Rightarrow> obj \<Rightarrow> string" where
  "identifierPath ids ob = join ''/'' (map (\<lambda>fld. get ob fld) ids)"

text \<open>\<^verbatim>\<open>handleSubmit\<close>: \<open>fr\<close> answers the \<^verbatim>\<open>PUT\<close> or \<^verbatim>\<open>POST\<close>, \<open>fr'\<close> the
  \<^verbatim>\<open>GET\<close> of the \<^verbatim>\<open>fetchEntities()\<close> that a success starts.\<close>

definition handleSubmit :: "props \<Rightarrow> fetch_result \<Rightarrow> fetch_result \<Rightarrow> state \<Rightarrow> state \<times> trace" where
  "handleSubmit p fr fr' s =
     (let s1 = s\<lparr>error := []\<rparr>;
          (res, fx) =
            (if isEditing s
             then apiCall (endpoint p @ ''/'' @ identifierPath (uniqueIdentifierFields p) (editIdentifier s))
                    ''PUT'' (JObj (formData s)) fr
             else apiCall (endpoint p) ''POST'' (JObj (formData s)) fr)
      in case res of
           Inr result \<Rightarrow>
             (let alerted =
                    (s1, Alert (entityName p @
                       (if isEditing s then '' updated successfully!'' else '' added successfully!'')));
                  s2 = s1\<lparr>formData := []\<rparr>;
                  s3 = s2\<lparr>isEditing := False\<rparr>;
                  s4 = s3\<lparr>editId := JNull\<rparr>;
                  s5 = s4\<lparr>editIdentifier := []\<rparr>;
                  (s6, fx') = fetchEntities p fr' s5
              in (s6, map (Pair s1) fx @ [alerted] @ fx'))
         | Inl err \<Rightarrow>
             (s1\<lparr>error := ''Failed to save '' @ entityName p @ '': '' @ message err\<rparr>,
              map (Pair s1) fx))"

text \<open>\<^verbatim>\<open>new Date(v).toISOString().split("T")[0]\<close>\<close>

definition date_only :: "host \<Rightarrow> jsval \<Rightarrow> js_error + string" where
  "date_only h v =
     (case toISOString (Date_new h v) of
        Inl e \<Rightarrow> Inl e
      | Inr str \<Rightarrow> Inr (split_first CHR ''T'' str))"

text \<open>The \<^verbatim>\<open>forEach\<close> over the form fields in \<^verbatim>\<open>handleEdit\<close>; \<^verbatim>\<open>toISOString\<close> may
  throw, which leaves the loop and the handler.\<close>

fun normalizeDates :: "host \<Rightarrow> field list \<Rightarrow> obj \<Rightarrow> js_error + obj" where
  "normalizeDates h [] newFormData = Inr newFormData"
| "normalizeDates h (fld # rest) newFormData =
     (if type fld = ''date'' \<and> truthy (get newFormData (name fld))
      then (case date_only h (get newFormData (name fld)) of
              Inl e \<Rightarrow> Inl e
            | Inr d \<Rightarrow> normalizeDates h rest (set_prop (name fld) (JStr d) newFormData))
      else normalizeDates h rest newFormData)"

text \<open>The \<^verbatim>\<open>forEach\<close> that captures the identifier.\<close>

fun captureIdentifier :: "string list \<Rightarrow> obj \<Rightarrow> obj \<Rightarrow> obj" where
  "captureIdentifier [] entity identifier = identifier"
| "captureIdentifier (fld # rest) entity identifier =
     captureIdentifier rest entity (set_prop fld (get entity fld) identifier)"

text \<open>\<^verbatim>\<open>handleEdit\<close>: the error thrown (no state was set yet), or the new state.
  \<^verbatim>\<open>window.scrollTo\<close> touches no state of the component.\<close>

definition handleEdit :: "host \<Rightarrow> props \<Rightarrow> obj \<Rightarrow> state \<Rightarrow> js_error + state" where
  "handleEdit h p entity s =
     (case normalizeDates h (formFields p) entity of
        Inl e \<Rightarrow> Inl e
      | Inr newFormData \<Rightarrow>
          Inr (s\<lparr>formData := newFormData,
                 isEditing := True,
                 editId := get entity ''_id'',
                 editIdentifier := captureIdentifier (uniqueIdentifierFields p) entity []\<rparr>))"

text \<open>\<^verbatim>\<open>handleDelete\<close>: \<open>confirmed\<close> is the user's answer to \<^verbatim>\<open>window.confirm\<close>.\<close>

definition handleDelete ::
  "props \<Rightarrow> obj \<Rightarrow> bool \<Rightarrow> fetch_result \<Rightarrow> fetch_result \<Rightarrow> state \<Rightarrow> state \<times> trace" where
  "handleDelete p entity confirmed fr fr' s =
     (let asked = (s, Confirm (''Are you sure you want to delete this '' @ entityName p @ ''?''))
      in if confirmed
         then
           (let s1 = s\<lparr>error := []\<rparr>;
                (res, fx) =
                  apiCall (endpoint p @ ''/'' @ identifierPath (uniqueIdentifierFields p) entity)
                    ''DELETE'' JNull fr
            in case res of
                 Inr result \<Rightarrow>
                   (let alerted = (s1, Alert (entityName p @ '' deleted successfully!''));
                        (s2, fx') = fetchEntities p fr' s1
                    in (s2, [asked] @ map (Pair s1) fx @ [alerted] @ fx'))
               | Inl err \<Rightarrow>
                   (s1\<lparr>error := ''Failed to delete '' @ entityName p @ '': '' @ message err\<rparr>,
                    [asked] @ map (Pair s1) fx))
         else (s, [asked]))"

definition handleCancelEdit :: "state \<Rightarrow> state \<times> trace" where
  "handleCancelEdit s =
     (let s1 = s\<lparr>formData := []\<rparr>;
          s2 = s1\<lparr>isEditing := False\<rparr>;
          s3 = s2\<lparr>editId := JNull\<rparr>;
          s4 = s3\<lparr>editIdentifier := []\<rparr>;
          s5 = s4\<lparr>error := []\<rparr>
      in (s5, []))"

text \<open>
  The handlers are asynchronous.  Each runs until it has sent its request; the rest of it,
  its continuation, runs when the answer arrives, and in between the event loop may run other
  handlers and continuations.  The three functions above run one handler in isolation, its
  requests answered at once.  The functions below are the two halves of each: what runs up to
  the request, and what runs on the answer (the new state, and the continuations of the
  requests sent meanwhile).
\<close>

datatype continuation = AfterFetch | AfterSubmit | AfterDelete

definition fetchEntities_start :: "state \<Rightarrow> state" where
  "fetchEntities_start s = (let s1 = s\<lparr>loading := True\<rparr>; s2 = s1\<lparr>error := []\<rparr> in s2)"

definition fetchEntities_resume :: "props \<Rightarrow> fetch_result \<Rightarrow> state \<Rightarrow> state" where
  "fetchEntities_resume p fr s =
     (let s3 = (case response_outcome fr of
                  Inr data \<Rightarrow> s\<lparr>entities := data\<rparr>
                | Inl err \<Rightarrow>
                    s\<lparr>error := ''Failed to fetch '' @ entityName p @ ''s: '' @ message err\<rparr>)
      in s3\<lparr>loading := False\<rparr>)"

definition handleSubmit_start :: "state \<Rightarrow> state" where
  "handleSubmit_start s = s\<lparr>error := []\<rparr>"

definition handleSubmit_resume :: "props \<Rightarrow> fetch_result \<Rightarrow> state \<Rightarrow> state \<times> continuation list" where
  "handleSubmit_resume p fr s =
     (case response_outcome fr of
        Inr result \<Rightarrow>
          (let s2 = s\<lparr>formData := []\<rparr>;
               s3 = s2\<lparr>isEditing := False\<rparr>;
               s4 = s3\<lparr>editId := JNull\<rparr>;
               s5 = s4\<lparr>editIdentifier := []\<rparr>
           in (fetchEntities_start s5, [AfterFetch]))
      | Inl err \<Rightarrow>
          (s\<lparr>error := ''Failed to save '' @ entityName p @ '': '' @ message err\<rparr>, []))"

definition handleDelete_start :: "state \<Rightarrow> state" where
  "handleDelete_start s = s\<lparr>error := []\<rparr>"

definition handleDelete_resume :: "props \<Rightarrow> fetch_result \<Rightarrow> state \<Rightarrow> state \<times> continuation list" where
  "handleDelete_resume p fr s =
     (case response_outcome fr of
        Inr result \<Rightarrow> (fetchEntities_start s, [AfterFetch])
      | Inl err \<Rightarrow>
          (s\<lparr>error := ''Failed to delete '' @ entityName p @ '': '' @ message err\<rparr>, []))"

text \<open>
  The mounted component: its state and the continuations of the requests in flight, oldest
  first.  A move is a call of a handler (by the mount effect or the user), or the network
  settling the request at a position of that list with an answer.
\<close>

type_synonym config = "state \<times> continuation list"

datatype move =
    Call_fetchEntities
  | Call_handleInputChange string string string bool
  | Call_handleSubmit
  | Call_handleEdit obj
  | Call_handleDelete obj bool
  | Call_handleCancelEdit
  | Settle nat fetch_result

fun make_move :: "host \<Rightarrow> props \<Rightarrow> move \<Rightarrow> config \<Rightarrow> config" where
  "make_move h p Call_fetchEntities (s, ks) = (fetchEntities_start s, ks @ [AfterFetch])"
| "make_move h p (Call_handleInputChange nm val ty checked) (s, ks) =
     (handleInputChange nm val ty checked s, ks)"
| "make_move h p Call_handleSubmit (s, ks) = (handleSubmit_start s, ks @ [AfterSubmit])"
| "make_move h p (Call_handleEdit entity) (s, ks) =
     (case handleEdit h p entity s of Inl e \<Rightarrow> (s, ks) | Inr s' \<Rightarrow> (s', ks))"
| "make_move h p (Call_handleDelete entity confirmed) (s, ks) =
     (if confirmed then (handleDelete_start s, ks @ [AfterDelete]) else (s, ks))"
| "make_move h p Call_handleCancelEdit (s, ks) = (fst (handleCancelEdit s), ks)"
| "make_move h p (Settle i fr) (s, ks) =
     (if i < length ks
      then (case ks ! i of
              AfterFetch \<Rightarrow> (fetchEntities_resume p fr s, take i ks @ drop (Suc i) ks)
            | AfterSubmit \<Rightarrow>
                (let (s', started) = handleSubmit_resume p fr s
                 in (s', take i ks @ drop (Suc i) ks @ started))
            | AfterDelete \<Rightarrow>
                (let (s', started) = handleDelete_resume p fr s
                 in (s', take i ks @ drop (Suc i) ks @ started)))
      else (s, ks))"

definition play :: "host \<Rightarrow> props \<Rightarrow> move list \<Rightarrow> config \<Rightarrow> config" where
  "play h p ms c = fold (make_move h p) ms c"

text \<open>The moves that load a record into the form, and the moves that deliver a failure (the
  network settling a request with an answer on which \<^verbatim>\<open>apiCall\<close> throws).\<close>

fun loads_record :: "move \<Rightarrow> bool" where
  "loads_record (Call_handleEdit entity) = True"
| "loads_record mv = False"

fun fails :: "move \<Rightarrow> bool" where
  "fails (Settle i fr) = (case response_outcome fr of Inl err \<Rightarrow> True | Inr result \<Rightarrow> False)"
| "fails mv = False"

text \<open>The record in the form after a schedule of moves, when it was \<open>r\<close> before: the one
  of the last \<^verbatim>\<open>handleEdit\<close> that returns (a \<^verbatim>\<open>handleEdit\<close> that throws does so in
  its loop over the form fields, before it sets any state).\<close>

fun last_loaded :: "host \<Rightarrow> props \<Rightarrow> move list \<Rightarrow> obj \<Rightarrow> obj" where
  "last_loaded h p [] r = r"
| "last_loaded h p (Call_handleEdit entity # ms) r =
     last_loaded h p ms
       (case normalizeDates h (formFields p) entity of Inl err \<Rightarrow> r | Inr d \<Rightarrow> entity)"
| "last_loaded h p (mv # ms) r = last_loaded h p ms r"

text \<open>A sequence of keystrokes in the form: \<^verbatim>\<open>handleInputChange\<close> on each target
  (name, value, type, checked) in turn.\<close>

definition input_changes :: "(string \<times> string \<times> string \<times> bool) list \<Rightarrow> state \<Rightarrow> state" where
  "input_changes cs s = fold (\<lambda>(nm, val, ty, checked). handleInputChange nm val ty checked) cs s"

text \<open>The editable fields of a record, in the specification's words: its values at the
  names of the form fields of the schema.\<close>

definition editable_fields :: "props \<Rightarrow> obj \<Rightarrow> (string \<times> jsval) list" where
  "editable_fields p ob = map (\<lambda>f. (name f, get ob (name f))) (formFields p)"

text \<open>The requests of a trace, in order.\<close>

fun requests :: "trace \<Rightarrow> request list" where
  "requests [] = []"
| "requests ((s, Fetch r) # tr) = r # requests tr"
| "requests ((s, e) # tr) = requests tr"


text \<open>The states in which a trace sends its requests: what the component holds while
  each request is in flight.\<close>

fun in_flight :: "trace \<Rightarrow> state list" where
  "in_flight [] = []"
| "in_flight ((s, Fetch r) # tr) = s # in_flight tr"
| "in_flight ((s, e) # tr) = in_flight tr"

section \<open>The entity schemas (\<^verbatim>\<open>src/pages\<close>)\<close>

text \<open>A form field without options and default value, as most are written.\<close>

definition form_field :: "string \<Rightarrow> string \<Rightarrow> string \<Rightarrow> string option \<Rightarrow> bool \<Rightarrow> field" where
  "form_field n l t ph req =
     \<lparr>name = n, label = l, type = t, placeholder = ph, required = req, options = [],
      defaultValue = None\<rparr>"

definition SupplierManager :: props where
  "SupplierManager =
     \<lparr>title = ''Supplier'',
      entityName = ''Supplier'',
      endpoint = ''/suppliers'',
      formFields =
        [form_field ''supplier_id'' ''Supplier ID'' ''text'' (Some ''e.g., SUP001'') True,
         form_field ''supplier_name'' ''Supplier Name'' ''text'' (Some ''e.g., Silicon Inc.'') True,
         form_field ''contact_person'' ''Contact Person'' ''text'' (Some ''e.g., John Doe'') False,
         form_field ''contact_email'' ''Contact Email'' ''email'' (Some ''e.g., john@example.com'') False,
         form_field ''contact_phone'' ''Contact Phone'' ''text'' (Some ''e.g., +1234567890'') False,
         form_field ''supplier_location_id'' ''Location ID'' ''text''
           (Some ''e.g., LOC001 (must exist)'') True],
      idField = ''supplier_id'',
      displayFields =
        [(''supplier_id'', ''ID''), (''supplier_name'', ''Name''),
         (''contact_person'', ''Contact Person''), (''contact_email'', ''Email''),
         (''supplier_location_id'', ''Location ID'')],
      uniqueIdentifierFields = [''supplier_id'']\<rparr>"

definition StoreLimitManager :: props where
  "StoreLimitManager =
     \<lparr>title = ''Store Limit'',
      entityName = ''Store Limit'',
      endpoint = ''/store_limits'',
      formFields =
        [form_field ''product_id'' ''Product ID'' ''text'' (Some ''e.g., PRD003'') True,
         form_field ''location_id'' ''Location ID'' ''text'' (Some ''e.g., LOC004'') True,
         form_field ''base_limit'' ''Base Limit'' ''number'' (Some ''e.g., 10'') True,
         form_field ''max_limit'' ''Max Limit'' ''number'' (Some ''e.g., 100'') True],
      idField = ''product_id'',
      displayFields =
        [(''product_id'', ''Product ID''), (''location_id'', ''Location ID''),
         (''base_limit'', ''Base Limit''), (''max_limit'', ''Max Limit'')],
      uniqueIdentifierFields = [''product_id'', ''location_id'']\<rparr>"

definition RawMaterialCostManager :: props where
  "RawMaterialCostManager =
     \<lparr>title = ''Raw Material Cost'',
      entityName = ''Raw Material Cost'',
      endpoint = ''/raw_material_costs'',
      formFields =
        [form_field ''product_id'' ''Product ID'' ''text'' (Some ''e.g., PRD001'') True,
         form_field ''supplier_id'' ''Supplier ID'' ''text'' (Some ''e.g., SUP001'') True,
         form_field ''cost_per_unit'' ''Cost Per Unit'' ''number'' (Some ''e.g., 10.50'') True,
         (form_field ''currency'' ''Currency'' ''text'' (Some ''e.g., USD'') False)
           \<lparr>defaultValue := Some ''USD''\<rparr>,
         form_field ''effective_date'' ''Effective Date'' ''date'' None True],
      idField = ''product_id'',
      displayFields =
        [(''product_id'', ''Product ID''), (''supplier_id'', ''Supplier ID''),
         (''cost_per_unit'', ''Cost/Unit''), (''currency'', ''Currency''),
         (''effective_date'', ''Effective Date'')],
      uniqueIdentifierFields = [''product_id'', ''supplier_id'', ''effective_date'']\<rparr>"


section \<open>The transport adapter: what a call returns and logs\<close>

text \<open>The request that \<^verbatim>\<open>apiCall\<close> sends.\<close>

definition request_of :: "string \<Rightarrow> string \<Rightarrow> jsval \<Rightarrow> request" where
  "request_of ep m d =
     \<lparr>url = API_BASE_URL @ ep, http_method = m,
      headers = [(''Content-Type'', ''application/json'')],
      body = (if truthy d then Some d else None)\<rparr>"

lemma apiCall_success:
  "apiCall ep m d (Responded True result) = (Inr result, [Fetch (request_of ep m d)])"
  by (simp add: apiCall_def response_outcome_def request_of_def Let_def)

lemma apiCall_first_effect:
  "\<exists>rest. snd (apiCall ep m d fr) = Fetch (request_of ep m d) # rest"
  by (simp add: apiCall_def response_outcome_def request_of_def Let_def split: fetch_result.splits sum.splits)

lemma apiCall_Inr_iff:
  "fst (apiCall ep m d fr) = Inr result \<longleftrightarrow> fr = Responded True result"
  by (auto simp: apiCall_def response_outcome_def Let_def split: fetch_result.splits sum.splits)

lemma apiCall_failure_logged:
  "fst (apiCall ep m d fr) = Inl err \<Longrightarrow>
   snd (apiCall ep m d fr) =
     [Fetch (request_of ep m d),
      ConsoleError (''API Call Error ('' @ m @ '' '' @ API_BASE_URL @ ep @ ''):'') err]"
  by (auto simp: apiCall_def response_outcome_def request_of_def Let_def split: fetch_result.splits sum.splits)

lemma apiCall_requests:
  "requests (map (Pair s) (snd (apiCall ep m d fr))) = [request_of ep m d]"
  by (simp add: apiCall_def response_outcome_def request_of_def Let_def split: fetch_result.splits sum.splits)

lemma apiCall_in_flight:
  "in_flight (map (Pair s) (snd (apiCall ep m d fr))) = [s]"
  by (simp add: apiCall_def response_outcome_def Let_def split: fetch_result.splits sum.splits)

lemma in_flight_append: "in_flight (xs @ ys) = in_flight xs @ in_flight ys"
  by (induction xs rule: in_flight.induct) simp_all

lemma requests_append: "requests (xs @ ys) = requests xs @ requests ys"
  by (induction xs rule: requests.induct) simp_all

section \<open>Fetching the records\<close>

lemma fetchEntities_Inr:
  "fst (apiCall (endpoint p) ''GET'' JNull fr) = Inr data \<Longrightarrow>
   fst (fetchEntities p fr s) = s\<lparr>loading := False, error := [], entities := data\<rparr>"
  by (simp add: fetchEntities_def Let_def case_prod_beta)

lemma fetchEntities_Inl:
  "fst (apiCall (endpoint p) ''GET'' JNull fr) = Inl err \<Longrightarrow>
   fst (fetchEntities p fr s) =
     s\<lparr>loading := False, error := ''Failed to fetch '' @ entityName p @ ''s: '' @ message err\<rparr>"
  by (simp add: fetchEntities_def Let_def case_prod_beta)

lemma fetchEntities_trace:
  "snd (fetchEntities p fr s) =
     map (Pair (s\<lparr>loading := True, error := []\<rparr>)) (snd (apiCall (endpoint p) ''GET'' JNull fr))"
  by (simp add: fetchEntities_def Let_def case_prod_beta)

lemma fetchEntities_requests:
  "requests (snd (fetchEntities p fr s)) = [request_of (endpoint p) ''GET'' JNull]"
  by (simp add: fetchEntities_trace apiCall_requests)

lemma fetchEntities_in_flight:
  "in_flight (snd (fetchEntities p fr s)) = [s\<lparr>loading := True, error := []\<rparr>]"
  by (simp add: fetchEntities_trace apiCall_in_flight)

lemma fetchEntities_loading: "loading (fst (fetchEntities p fr s)) = False"
  by (simp add: fetchEntities_def Let_def case_prod_beta split: sum.splits)

lemma fetchEntities_prior_error: "fetchEntities p fr (s\<lparr>error := e\<rparr>) = fetchEntities p fr s"
  by (simp add: fetchEntities_def Let_def case_prod_beta split: sum.splits)

text \<open>
  Claim C3.  Whatever the network answers, \<^verbatim>\<open>fetchEntities\<close> ends with the loading flag
  false, and every effect of the call (the request; the log entry of a failure) happens while
  the flag is true.  When the call fails (\<^verbatim>\<open>apiCall\<close> throws \<open>err\<close>: no response, a body
  that is not JSON, or a status that is not a success), the records are the ones held before
  and the error is the message \<^verbatim>\<open>Failed to fetch <entityName>s: <message of err>\<close>.
  The same holds of the two halves of the call when other handlers run in between: the first
  half sets the flag, and the second half, run on a failure in whatever state \<open>s'\<close> the
  component is in by then, clears the flag and leaves the records of \<open>s'\<close>.
\<close>

theorem fetchEntities_failure:
  "loading (fst (fetchEntities p fr s)) = False \<and>
   list_all (\<lambda>(st, e). loading st) (snd (fetchEntities p fr s)) \<and>
   (\<forall>err. fst (apiCall (endpoint p) ''GET'' JNull fr) = Inl err \<longrightarrow>
      entities (fst (fetchEntities p fr s)) = entities s \<and>
      error (fst (fetchEntities p fr s)) =
        ''Failed to fetch '' @ entityName p @ ''s: '' @ message err) \<and>
   loading (fetchEntities_start s') \<and>
   loading (fetchEntities_resume p fr s') = False \<and>
   (\<forall>err. response_outcome fr = Inl err \<longrightarrow>
      entities (fetchEntities_resume p fr s') = entities s' \<and>
      error (fetchEntities_resume p fr s') =
        ''Failed to fetch '' @ entityName p @ ''s: '' @ message err)"
  by (simp add: fetchEntities_loading fetchEntities_trace fetchEntities_Inl list_all_iff
      fetchEntities_start_def fetchEntities_resume_def split: sum.splits)

theorem fetchEntities_failure_witness:
  "entities (fst (fetchEntities SupplierManager (FetchRejected (TypeError ''Failed to fetch''))
      (initial_state\<lparr>entities := JArr [JObj [(''supplier_id'', JStr ''SUP001'')]], loading := False\<rparr>)))
     = JArr [JObj [(''supplier_id'', JStr ''SUP001'')]] \<and>
   error (fst (fetchEntities SupplierManager (FetchRejected (TypeError ''Failed to fetch''))
      (initial_state\<lparr>entities := JArr [JObj [(''supplier_id'', JStr ''SUP001'')]], loading := False\<rparr>)))
     = ''Failed to fetch Suppliers: Failed to fetch'' \<and>
   loading (fst (fetchEntities SupplierManager (FetchRejected (TypeError ''Failed to fetch''))
      (initial_state\<lparr>entities := JArr [JObj [(''supplier_id'', JStr ''SUP001'')]], loading := False\<rparr>)))
     = False"
  using fetchEntities_failure [of SupplierManager "FetchRejected (TypeError ''Failed to fetch'')"
      "initial_state\<lparr>entities := JArr [JObj [(''supplier_id'', JStr ''SUP001'')]], loading := False\<rparr>"]
  by (simp add: apiCall_def response_outcome_def SupplierManager_def initial_state_def)

section \<open>Submitting the draft\<close>

lemma handleSubmit_success:
  "handleSubmit p (Responded True result) fr' s =
     (fst (fetchEntities p fr'
        (s\<lparr>error := [], formData := [], isEditing := False, editId := JNull, editIdentifier := []\<rparr>)),
      [(s\<lparr>error := []\<rparr>,
        Fetch (request_of
          (if isEditing s
           then endpoint p @ ''/'' @ identifierPath (uniqueIdentifierFields p) (editIdentifier s)
           else endpoint p)
          (if isEditing s then ''PUT'' else ''POST'') (JObj (formData s)))),
       (s\<lparr>error := []\<rparr>,
        Alert (entityName p @
          (if isEditing s then '' updated successfully!'' else '' added successfully!'')))] @
      snd (fetchEntities p fr'
        (s\<lparr>error := [], formData := [], isEditing := False, editId := JNull, editIdentifier := []\<rparr>)))"
  by (simp add: handleSubmit_def apiCall_success Let_def case_prod_beta)

lemma handleSubmit_failure:
  "fst (apiCall (if isEditing s
           then endpoint p @ ''/'' @ identifierPath (uniqueIdentifierFields p) (editIdentifier s)
           else endpoint p) (if isEditing s then ''PUT'' else ''POST'') (JObj (formData s)) fr) = Inl err \<Longrightarrow>
   handleSubmit p fr fr' s =
     (s\<lparr>error := ''Failed to save '' @ entityName p @ '': '' @ message err\<rparr>,
      map (Pair (s\<lparr>error := []\<rparr>))
        (snd (apiCall (if isEditing s
           then endpoint p @ ''/'' @ identifierPath (uniqueIdentifierFields p) (editIdentifier s)
           else endpoint p) (if isEditing s then ''PUT'' else ''POST'') (JObj (formData s)) fr)))"
  by (cases "isEditing s") (simp_all add: handleSubmit_def Let_def case_prod_beta)

lemma fetchEntities_frame:
  "formData (fst (fetchEntities p fr s)) = formData s"
  "isEditing (fst (fetchEntities p fr s)) = isEditing s"
  "editId (fst (fetchEntities p fr s)) = editId s"
  "editIdentifier (fst (fetchEntities p fr s)) = editIdentifier s"
  by (simp_all add: fetchEntities_def Let_def case_prod_beta split: sum.splits)

text \<open>
  Claim C4.  When the \<^verbatim>\<open>POST\<close> (Add mode) or \<^verbatim>\<open>PUT\<close> (Edit mode) of a submit
  succeeds, the handler ends with an empty draft, in Add mode, with an empty captured
  identifier; it has sent exactly two requests, the submit itself with the draft as body and
  then one \<^verbatim>\<open>GET\<close> of the endpoint; and what follows the success alert is
  \<^verbatim>\<open>fetchEntities\<close> run from the cleared state.  When other handlers run while the
  submit is in flight, the half of the handler that runs on the success does the same in
  whatever state \<open>s'\<close> the component is in by then: it clears the four cells and puts one
  \<^verbatim>\<open>GET\<close> in flight.  The witness is Scenario A of the specification, on the Supplier
  schema.
\<close>

theorem handleSubmit_on_success:
  "formData (fst (handleSubmit p (Responded True result) fr' s)) = [] \<and>
   \<not> isEditing (fst (handleSubmit p (Responded True result) fr' s)) \<and>
   editIdentifier (fst (handleSubmit p (Responded True result) fr' s)) = [] \<and>
   editId (fst (handleSubmit p (Responded True result) fr' s)) = JNull \<and>
   requests (snd (handleSubmit p (Responded True result) fr' s)) =
     [if isEditing s
      then request_of (endpoint p @ ''/'' @ identifierPath (uniqueIdentifierFields p) (editIdentifier s))
             ''PUT'' (JObj (formData s))
      else request_of (endpoint p) ''POST'' (JObj (formData s)),
      request_of (endpoint p) ''GET'' JNull] \<and>
   (fst (handleSubmit p (Responded True result) fr' s),
    drop 2 (snd (handleSubmit p (Responded True result) fr' s))) =
     fetchEntities p fr'
       (s\<lparr>error := [], formData := [], isEditing := False, editId := JNull, editIdentifier := []\<rparr>) \<and>
   handleSubmit_resume p (Responded True result) s' =
     (fetchEntities_start
        (s'\<lparr>formData := [], isEditing := False, editId := JNull, editIdentifier := []\<rparr>),
      [AfterFetch])"
  unfolding handleSubmit_success
  by (simp add: fetchEntities_frame fetchEntities_requests requests_append
      handleSubmit_resume_def response_outcome_def)

theorem handleSubmit_on_success_witness:
  "requests (snd (handleSubmit SupplierManager (Responded True (JObj [(''_id'', JStr ''65f0'')]))
       (Responded True (JArr []))
       (initial_state\<lparr>loading := False,
          formData := [(''supplier_id'', JStr ''SUP001''), (''supplier_name'', JStr ''Silicon Inc.''),
                       (''supplier_location_id'', JStr ''LOC001'')]\<rparr>))) =
     [\<lparr>url = ''http://localhost:5000/api/suppliers'', http_method = ''POST'',
       headers = [(''Content-Type'', ''application/json'')],
       body = Some (JObj [(''supplier_id'', JStr ''SUP001''), (''supplier_name'', JStr ''Silicon Inc.''),
                          (''supplier_location_id'', JStr ''LOC001'')])\<rparr>,
      \<lparr>url = ''http://localhost:5000/api/suppliers'', http_method = ''GET'',
       headers = [(''Content-Type'', ''application/json'')], body = None\<rparr>] \<and>
   formData (fst (handleSubmit SupplierManager (Responded True (JObj [(''_id'', JStr ''65f0'')]))
       (Responded True (JArr []))
       (initial_state\<lparr>loading := False,
          formData := [(''supplier_id'', JStr ''SUP001''), (''supplier_name'', JStr ''Silicon Inc.''),
                       (''supplier_location_id'', JStr ''LOC001'')]\<rparr>))) = []"
  using handleSubmit_on_success [of SupplierManager "JObj [(''_id'', JStr ''65f0'')]"
      "Responded True (JArr [])"
      "initial_state\<lparr>loading := False,
          formData := [(''supplier_id'', JStr ''SUP001''), (''supplier_name'', JStr ''Silicon Inc.''),
                       (''supplier_location_id'', JStr ''LOC001'')]\<rparr>"]
  by (simp add: request_of_def API_BASE_URL_def SupplierManager_def initial_state_def)

lemma response_outcome_error_field:
  "get kvs ''error'' = JStr m \<Longrightarrow> m \<noteq> [] \<Longrightarrow>
   response_outcome (Responded False (JObj kvs)) = Inl (Error m)"
  by (simp add: response_outcome_def read_error_def js_or_def)

lemma apiCall_error_field:
  "get kvs ''error'' = JStr m \<Longrightarrow> m \<noteq> [] \<Longrightarrow>
   apiCall ep mth d (Responded False (JObj kvs)) =
     (Inl (Error m),
      [Fetch (request_of ep mth d),
       ConsoleError (''API Call Error ('' @ mth @ '' '' @ API_BASE_URL @ ep @ ''):'') (Error m)])"
  by (simp add: apiCall_def response_outcome_def request_of_def read_error_def js_or_def Let_def)

text \<open>
  Claim C5, as amended.  When the backend rejects a submit with a body whose \<^verbatim>\<open>error\<close>
  field is \<^verbatim>\<open>duplicate\<close>, the handler changes nothing but the error: the draft and the
  mode are the ones held before, and the error is
  \<^verbatim>\<open>Failed to save <entityName>: duplicate\<close>, the server's message behind the handler's
  prefix.  When other handlers run while the submit is in flight, the half of the handler
  that runs on the rejection changes nothing but the error of the state \<open>s'\<close> the component
  is in by then, and sends nothing.
\<close>

theorem handleSubmit_rejected_duplicate:
  "get kvs ''error'' = JStr ''duplicate'' \<Longrightarrow>
   fst (handleSubmit p (Responded False (JObj kvs)) fr' s) =
     s\<lparr>error := ''Failed to save '' @ entityName p @ '': duplicate''\<rparr> \<and>
   formData (fst (handleSubmit p (Responded False (JObj kvs)) fr' s)) = formData s \<and>
   isEditing (fst (handleSubmit p (Responded False (JObj kvs)) fr' s)) = isEditing s \<and>
   handleSubmit_resume p (Responded False (JObj kvs)) s' =
     (s'\<lparr>error := ''Failed to save '' @ entityName p @ '': duplicate''\<rparr>, [])"
  by (simp add: handleSubmit_failure apiCall_error_field handleSubmit_resume_def
      response_outcome_error_field)

theorem handleSubmit_rejected_duplicate_witness:
  "error (fst (handleSubmit SupplierManager (Responded False (JObj [(''error'', JStr ''duplicate'')]))
       (Responded True (JArr []))
       (initial_state\<lparr>loading := False, formData := [(''supplier_id'', JStr ''SUP001'')]\<rparr>))) =
     ''Failed to save Supplier: duplicate'' \<and>
   formData (fst (handleSubmit SupplierManager (Responded False (JObj [(''error'', JStr ''duplicate'')]))
       (Responded True (JArr []))
       (initial_state\<lparr>loading := False, formData := [(''supplier_id'', JStr ''SUP001'')]\<rparr>))) =
     [(''supplier_id'', JStr ''SUP001'')]"
  using handleSubmit_rejected_duplicate [of "[(''error'', JStr ''duplicate'')]" SupplierManager
      "Responded True (JArr [])"
      "initial_state\<lparr>loading := False, formData := [(''supplier_id'', JStr ''SUP001'')]\<rparr>"]
  by (simp add: get_def SupplierManager_def initial_state_def)

text \<open>The claim as the specification words it (the error is the bare \<^verbatim>\<open>duplicate\<close>) fails
  on the Supplier page.\<close>

theorem handleSubmit_error_not_bare_message:
  "error (fst (handleSubmit SupplierManager (Responded False (JObj [(''error'', JStr ''duplicate'')]))
       (Responded True (JArr []))
       (initial_state\<lparr>loading := False, formData := [(''supplier_id'', JStr ''SUP001'')]\<rparr>))) \<noteq>
     ''duplicate''"
  by (simp add: handleSubmit_failure apiCall_error_field get_def SupplierManager_def initial_state_def)

lemma handleSubmit_in_flight:
  "in_flight (snd (handleSubmit p fr fr' s)) =
     (case fst (apiCall (if isEditing s
           then endpoint p @ ''/'' @ identifierPath (uniqueIdentifierFields p) (editIdentifier s)
           else endpoint p) (if isEditing s then ''PUT'' else ''POST'') (JObj (formData s)) fr) of
        Inl err \<Rightarrow> [s\<lparr>error := []\<rparr>]
      | Inr result \<Rightarrow>
          [s\<lparr>error := []\<rparr>,
           s\<lparr>error := [], formData := [], isEditing := False, editId := JNull,
             editIdentifier := [], loading := True\<rparr>])"
proof (cases "fst (apiCall (if isEditing s
           then endpoint p @ ''/'' @ identifierPath (uniqueIdentifierFields p) (editIdentifier s)
           else endpoint p) (if isEditing s then ''PUT'' else ''POST'') (JObj (formData s)) fr)")
  case (Inl err)
  then show ?thesis
    by (simp add: handleSubmit_failure [OF Inl] apiCall_in_flight)
next
  case (Inr result)
  then have "fr = Responded True result"
    by (simp add: apiCall_Inr_iff)
  then show ?thesis
    using Inr by (simp add: handleSubmit_success fetchEntities_in_flight)
qed

lemma handleSubmit_prior_error:
  "fst (handleSubmit p fr fr' (s\<lparr>error := e\<rparr>)) = fst (handleSubmit p fr fr' s)"
  by (cases "isEditing s")
     (simp_all add: handleSubmit_def Let_def case_prod_beta fetchEntities_def split: sum.splits)

section \<open>Deleting a record\<close>

lemma handleDelete_success:
  "handleDelete p entity True (Responded True result) fr' s =
     (fst (fetchEntities p fr' (s\<lparr>error := []\<rparr>)),
      [(s, Confirm (''Are you sure you want to delete this '' @ entityName p @ ''?'')),
       (s\<lparr>error := []\<rparr>,
        Fetch (request_of (endpoint p @ ''/'' @ identifierPath (uniqueIdentifierFields p) entity)
                 ''DELETE'' JNull)),
       (s\<lparr>error := []\<rparr>, Alert (entityName p @ '' deleted successfully!''))] @
      snd (fetchEntities p fr' (s\<lparr>error := []\<rparr>)))"
  by (simp add: handleDelete_def apiCall_success Let_def case_prod_beta)

lemma handleDelete_failure:
  "fst (apiCall (endpoint p @ ''/'' @ identifierPath (uniqueIdentifierFields p) entity)
          ''DELETE'' JNull fr) = Inl err \<Longrightarrow>
   handleDelete p entity True fr fr' s =
     (s\<lparr>error := ''Failed to delete '' @ entityName p @ '': '' @ message err\<rparr>,
      (s, Confirm (''Are you sure you want to delete this '' @ entityName p @ ''?'')) #
      map (Pair (s\<lparr>error := []\<rparr>))
        (snd (apiCall (endpoint p @ ''/'' @ identifierPath (uniqueIdentifierFields p) entity)
                ''DELETE'' JNull fr)))"
  by (simp add: handleDelete_def Let_def case_prod_beta)

lemma handleDelete_in_flight:
  "in_flight (snd (handleDelete p entity True fr fr' s)) =
     (case fst (apiCall (endpoint p @ ''/'' @ identifierPath (uniqueIdentifierFields p) entity)
                  ''DELETE'' JNull fr) of
        Inl err \<Rightarrow> [s\<lparr>error := []\<rparr>]
      | Inr result \<Rightarrow> [s\<lparr>error := []\<rparr>, s\<lparr>error := [], loading := True\<rparr>])"
proof (cases "fst (apiCall (endpoint p @ ''/'' @ identifierPath (uniqueIdentifierFields p) entity)
                  ''DELETE'' JNull fr)")
  case (Inl err)
  then show ?thesis
    by (simp add: handleDelete_failure [OF Inl] apiCall_in_flight)
next
  case (Inr result)
  then have "fr = Responded True result"
    by (simp add: apiCall_Inr_iff)
  then show ?thesis
    using Inr by (simp add: handleDelete_success fetchEntities_in_flight)
qed

lemma handleDelete_prior_error:
  "fst (handleDelete p entity True fr fr' (s\<lparr>error := e\<rparr>)) =
   fst (handleDelete p entity True fr fr' s)"
  by (simp add: handleDelete_def Let_def case_prod_beta fetchEntities_def split: sum.splits)

section \<open>The handlers interleaved\<close>

text \<open>A handler run alone is the schedule that settles each of its requests as soon as it
  is sent.\<close>

lemma apiCall_outcome: "fst (apiCall ep m d fr) = response_outcome fr"
  by (simp add: apiCall_def Let_def split: sum.splits)

lemma fetchEntities_phases:
  "fst (fetchEntities p fr s) = fetchEntities_resume p fr (fetchEntities_start s)"
  by (simp add: fetchEntities_def fetchEntities_resume_def fetchEntities_start_def Let_def
      case_prod_beta apiCall_outcome)

lemma handleSubmit_phases:
  "fst (handleSubmit p fr fr' s) =
     (case handleSubmit_resume p fr (handleSubmit_start s) of
        (s', []) \<Rightarrow> s'
      | (s', k # ks) \<Rightarrow> fetchEntities_resume p fr' s')"
  by (cases "isEditing s")
     (simp_all add: handleSubmit_def handleSubmit_resume_def handleSubmit_start_def Let_def
        case_prod_beta apiCall_outcome fetchEntities_phases fetchEntities_start_def
        split: sum.splits)

lemma handleDelete_phases:
  "fst (handleDelete p r True fr fr' s) =
     (case handleDelete_resume p fr (handleDelete_start s) of
        (s', []) \<Rightarrow> s'
      | (s', k # ks) \<Rightarrow> fetchEntities_resume p fr' s')"
  by (simp add: handleDelete_def handleDelete_resume_def handleDelete_start_def Let_def
        case_prod_beta apiCall_outcome fetchEntities_phases fetchEntities_start_def
        split: sum.splits)

lemma play_fetchEntities:
  "play h p [Call_fetchEntities, Settle 0 fr] (s, []) = (fst (fetchEntities p fr s), [])"
  by (simp add: play_def fetchEntities_phases)

lemma play_handleSubmit:
  "play h p [Call_handleSubmit, Settle 0 fr, Settle 0 fr'] (s, []) =
     (fst (handleSubmit p fr fr' s), [])"
  by (simp add: play_def handleSubmit_phases handleSubmit_resume_def split: sum.splits)

lemma play_handleDelete:
  "play h p [Call_handleDelete r True, Settle 0 fr, Settle 0 fr'] (s, []) =
     (fst (handleDelete p r True fr fr' s), [])"
  by (simp add: play_def handleDelete_phases handleDelete_resume_def split: sum.splits)

lemma play_Cons: "play h p (mv # ms) c = play h p ms (make_move h p mv c)"
  by (simp add: play_def)

text \<open>Edit mode is entered by \<^verbatim>\<open>handleEdit\<close> only, and nothing else writes the captured
  identifier while the mode lasts.\<close>

lemma make_move_keeps_edit:
  assumes "\<not> loads_record mv" "isEditing (fst (make_move h p mv c))"
  shows "isEditing (fst c) \<and> editIdentifier (fst (make_move h p mv c)) = editIdentifier (fst c)"
proof -
  obtain s ks where c: "c = (s, ks)" by (cases c)
  show ?thesis
  proof (cases mv)
    case Call_fetchEntities
    then show ?thesis using assms by (simp add: c fetchEntities_start_def)
  next
    case (Call_handleInputChange nm val ty checked)
    then show ?thesis using assms by (simp add: c handleInputChange_def)
  next
    case Call_handleSubmit
    then show ?thesis using assms by (simp add: c handleSubmit_start_def)
  next
    case (Call_handleEdit entity)
    then show ?thesis using assms by simp
  next
    case (Call_handleDelete entity confirmed)
    then show ?thesis using assms by (simp add: c handleDelete_start_def split: if_splits)
  next
    case Call_handleCancelEdit
    then show ?thesis using assms by (simp add: c handleCancelEdit_def)
  next
    case (Settle i fr)
    then show ?thesis
      using assms
      by (auto simp: c fetchEntities_resume_def fetchEntities_start_def handleSubmit_resume_def
          handleDelete_resume_def Let_def split: if_splits continuation.splits sum.splits)
  qed
qed

lemma play_keeps_edit:
  assumes "list_all (\<lambda>mv. \<not> loads_record mv) ms" "isEditing (fst (play h p ms c))"
  shows "isEditing (fst c) \<and> editIdentifier (fst (play h p ms c)) = editIdentifier (fst c)"
  using assms
proof (induction ms arbitrary: c)
  case Nil
  then show ?case by (simp add: play_def)
next
  case (Cons mv ms)
  have a: "isEditing (fst (make_move h p mv c)) \<and>
      editIdentifier (fst (play h p ms (make_move h p mv c))) =
        editIdentifier (fst (make_move h p mv c))"
    using Cons.IH [of "make_move h p mv c"] Cons.prems by (simp add: play_Cons)
  then show ?case
    using make_move_keeps_edit [of mv h p c] Cons.prems(1) by (simp add: play_Cons)
qed

text \<open>While Edit mode lasts, the captured identifier is the one of the record that the last
  \<^verbatim>\<open>handleEdit\<close> to return has loaded.\<close>

lemma last_loaded_no_loads:
  "list_all (\<lambda>mv. \<not> loads_record mv) ms \<Longrightarrow> last_loaded h p ms r = r"
proof (induction ms)
  case Nil
  then show ?case by simp
next
  case (Cons mv ms)
  then show ?case by (cases mv) simp_all
qed

lemma play_last_loaded:
  assumes "isEditing (fst c) \<longrightarrow>
      editIdentifier (fst c) = captureIdentifier (uniqueIdentifierFields p) r []"
    and "isEditing (fst (play h p ms c))"
  shows "editIdentifier (fst (play h p ms c)) =
     captureIdentifier (uniqueIdentifierFields p) (last_loaded h p ms r) []"
  using assms
proof (induction ms arbitrary: c r)
  case Nil
  then show ?case by (simp add: play_def)
next
  case (Cons mv ms)
  obtain s ks where c: "c = (s, ks)" by (cases c)
  show ?case
  proof (cases "loads_record mv")
    case False
    have k: "isEditing (fst (make_move h p mv c)) \<longrightarrow>
        editIdentifier (fst (make_move h p mv c)) =
          captureIdentifier (uniqueIdentifierFields p) r []"
      using make_move_keeps_edit [OF False, of h p c] Cons.prems(1) by simp
    have l: "last_loaded h p (mv # ms) r = last_loaded h p ms r"
      using False by (cases mv) simp_all
    show ?thesis
      using Cons.IH [OF k] Cons.prems(2) by (simp add: play_Cons l)
  next
    case True
    then obtain entity where mv: "mv = Call_handleEdit entity"
      by (cases mv) simp_all
    show ?thesis
    proof (cases "normalizeDates h (formFields p) entity")
      case (Inl err)
      then have m: "make_move h p mv c = c"
        by (simp add: mv c handleEdit_def)
      have l: "last_loaded h p (mv # ms) r = last_loaded h p ms r"
        by (simp add: mv Inl)
      show ?thesis
        using Cons.IH [of c r] Cons.prems by (simp add: play_Cons m l)
    next
      case (Inr d)
      have k: "isEditing (fst (make_move h p mv c)) \<longrightarrow>
          editIdentifier (fst (make_move h p mv c)) =
            captureIdentifier (uniqueIdentifierFields p) entity []"
        by (simp add: mv c handleEdit_def Inr)
      have l: "last_loaded h p (mv # ms) r = last_loaded h p ms entity"
        by (simp add: mv Inr)
      show ?thesis
        using Cons.IH [OF k] Cons.prems(2) by (simp add: play_Cons l)
    qed
  qed
qed

text \<open>The error is written by the catch branches only: an empty error stays empty until a
  failure is delivered.\<close>

lemma make_move_error_empty:
  assumes "\<not> fails mv" "error (fst c) = []"
  shows "error (fst (make_move h p mv c)) = []"
proof -
  obtain s ks where c: "c = (s, ks)" by (cases c)
  show ?thesis
  proof (cases mv)
    case Call_fetchEntities
    then show ?thesis by (simp add: c fetchEntities_start_def)
  next
    case (Call_handleInputChange nm val ty checked)
    then show ?thesis using assms by (simp add: c handleInputChange_def)
  next
    case Call_handleSubmit
    then show ?thesis by (simp add: c handleSubmit_start_def)
  next
    case (Call_handleEdit entity)
    then show ?thesis using assms by (simp add: c handleEdit_def split: sum.splits)
  next
    case (Call_handleDelete entity confirmed)
    then show ?thesis using assms by (simp add: c handleDelete_start_def)
  next
    case Call_handleCancelEdit
    then show ?thesis by (simp add: c handleCancelEdit_def)
  next
    case (Settle i fr)
    then show ?thesis
      using assms
      by (auto simp: c fetchEntities_resume_def fetchEntities_start_def handleSubmit_resume_def
          handleDelete_resume_def Let_def split: if_splits continuation.splits sum.splits)
  qed
qed

lemma play_error_empty:
  assumes "list_all (\<lambda>mv. \<not> fails mv) ms" "error (fst c) = []"
  shows "error (fst (play h p ms c)) = []"
  using assms
proof (induction ms arbitrary: c)
  case Nil
  then show ?case by (simp add: play_def)
next
  case (Cons mv ms)
  then show ?case
    using make_move_error_empty [of mv c h p] by (simp add: play_Cons)
qed

text \<open>
  Claim C9, as amended.  In the trace of \<^verbatim>\<open>fetchEntities\<close>, of \<^verbatim>\<open>handleSubmit\<close> and of a
  confirmed \<^verbatim>\<open>handleDelete\<close>, every request is sent from a state whose error is empty (the
  in-flight states are as many as the requests, and there is at least one request); and the
  state the handler ends in does not depend on the error held before, so an earlier message
  never survives: the error ends empty, or as the message of this attempt's failure.  With
  the handlers interleaved: the call of any of the three empties the error as it puts its
  request in flight, and from there the error stays empty over every schedule of calls and
  answers in which no failure is delivered, whichever request the failure would belong to.
\<close>

theorem error_cleared_before_request:
  "(\<forall>st \<in> set (in_flight (snd (fetchEntities p fr s))). error st = []) \<and>
   (\<forall>st \<in> set (in_flight (snd (handleSubmit p fr fr' s))). error st = []) \<and>
   (\<forall>st \<in> set (in_flight (snd (handleDelete p entity True fr fr' s))). error st = []) \<and>
   length (in_flight (snd (fetchEntities p fr s))) = length (requests (snd (fetchEntities p fr s))) \<and>
   length (in_flight (snd (handleSubmit p fr fr' s))) = length (requests (snd (handleSubmit p fr fr' s))) \<and>
   length (in_flight (snd (handleDelete p entity True fr fr' s))) =
     length (requests (snd (handleDelete p entity True fr fr' s))) \<and>
   requests (snd (fetchEntities p fr s)) \<noteq> [] \<and>
   requests (snd (handleSubmit p fr fr' s)) \<noteq> [] \<and>
   requests (snd (handleDelete p entity True fr fr' s)) \<noteq> [] \<and>
   fst (fetchEntities p fr (s\<lparr>error := e\<rparr>)) = fst (fetchEntities p fr s) \<and>
   fst (handleSubmit p fr fr' (s\<lparr>error := e\<rparr>)) = fst (handleSubmit p fr fr' s) \<and>
   fst (handleDelete p entity True fr fr' (s\<lparr>error := e\<rparr>)) =
     fst (handleDelete p entity True fr fr' s) \<and>
   (\<forall>mv \<in> {Call_fetchEntities, Call_handleSubmit, Call_handleDelete entity True}.
      error (fst (make_move h p mv c)) = [] \<and>
      length (snd (make_move h p mv c)) = Suc (length (snd c)) \<and>
      (\<forall>ms. list_all (\<lambda>m. \<not> fails m) ms \<longrightarrow>
            error (fst (play h p ms (make_move h p mv c))) = []))"
proof -
  have len: "length (in_flight tr) = length (requests tr)" for tr
    by (induction tr rule: in_flight.induct) simp_all
  have ne: "requests tr \<noteq> []" if "in_flight tr \<noteq> []" for tr
    using that len [of tr] by auto
  have a: "in_flight (snd (handleSubmit p fr fr' s)) \<noteq> []"
    by (simp add: handleSubmit_in_flight split: sum.splits)
  have b: "in_flight (snd (handleDelete p entity True fr fr' s)) \<noteq> []"
    by (simp add: handleDelete_in_flight split: sum.splits)
  have c: "in_flight (snd (fetchEntities p fr s)) \<noteq> []"
    by (simp add: fetchEntities_in_flight)
  have d: "\<forall>st \<in> set (in_flight (snd (handleSubmit p fr fr' s))). error st = []"
    by (simp add: handleSubmit_in_flight split: sum.splits)
  have f: "\<forall>st \<in> set (in_flight (snd (handleDelete p entity True fr fr' s))). error st = []"
    by (simp add: handleDelete_in_flight split: sum.splits)
  have g: "\<forall>st \<in> set (in_flight (snd (fetchEntities p fr s))). error st = []"
    by (simp add: fetchEntities_in_flight)
  obtain s0 ks where c0: "c = (s0, ks)" by (cases c)
  have st: "error (fst (make_move h p mv c)) = [] \<and>
      length (snd (make_move h p mv c)) = Suc (length (snd c))"
    if "mv \<in> {Call_fetchEntities, Call_handleSubmit, Call_handleDelete entity True}" for mv
    using that
    by (auto simp: c0 fetchEntities_start_def handleSubmit_start_def handleDelete_start_def)
  have il: "\<forall>mv \<in> {Call_fetchEntities, Call_handleSubmit, Call_handleDelete entity True}.
      error (fst (make_move h p mv c)) = [] \<and>
      length (snd (make_move h p mv c)) = Suc (length (snd c)) \<and>
      (\<forall>ms. list_all (\<lambda>m. \<not> fails m) ms \<longrightarrow>
            error (fst (play h p ms (make_move h p mv c))) = [])"
    using st play_error_empty by blast
  have seq: "(\<forall>st \<in> set (in_flight (snd (fetchEntities p fr s))). error st = []) \<and>
   (\<forall>st \<in> set (in_flight (snd (handleSubmit p fr fr' s))). error st = []) \<and>
   (\<forall>st \<in> set (in_flight (snd (handleDelete p entity True fr fr' s))). error st = []) \<and>
   length (in_flight (snd (fetchEntities p fr s))) = length (requests (snd (fetchEntities p fr s))) \<and>
   length (in_flight (snd (handleSubmit p fr fr' s))) = length (requests (snd (handleSubmit p fr fr' s))) \<and>
   length (in_flight (snd (handleDelete p entity True fr fr' s))) =
     length (requests (snd (handleDelete p entity True fr fr' s))) \<and>
   requests (snd (fetchEntities p fr s)) \<noteq> [] \<and>
   requests (snd (handleSubmit p fr fr' s)) \<noteq> [] \<and>
   requests (snd (handleDelete p entity True fr fr' s)) \<noteq> [] \<and>
   fst (fetchEntities p fr (s\<lparr>error := e\<rparr>)) = fst (fetchEntities p fr s) \<and>
   fst (handleSubmit p fr fr' (s\<lparr>error := e\<rparr>)) = fst (handleSubmit p fr fr' s) \<and>
   fst (handleDelete p entity True fr fr' (s\<lparr>error := e\<rparr>)) =
     fst (handleDelete p entity True fr fr' s)"
    using ne [OF a] ne [OF b] ne [OF c] d f g
    by (simp add: len fetchEntities_prior_error handleSubmit_prior_error handleDelete_prior_error)
  show ?thesis
    using seq il by blast
qed

text \<open>A submit rejected as a duplicate while an earlier message is on display; and, interleaved,
  a delete confirmed while the \<^verbatim>\<open>GET\<close> of the mount is in flight, which then succeeds.\<close>

theorem error_cleared_before_request_witness:
  "in_flight (snd (handleSubmit SupplierManager
       (Responded False (JObj [(''error'', JStr ''duplicate'')])) (Responded True (JArr []))
       (initial_state\<lparr>loading := False, error := ''Failed to save Supplier: timeout''\<rparr>))) =
     [initial_state\<lparr>loading := False\<rparr>] \<and>
   error (initial_state\<lparr>loading := False\<rparr>) = [] \<and>
   error (fst (handleSubmit SupplierManager
       (Responded False (JObj [(''error'', JStr ''duplicate'')])) (Responded True (JArr []))
       (initial_state\<lparr>loading := False, error := ''Failed to save Supplier: timeout''\<rparr>))) =
     ''Failed to save Supplier: duplicate'' \<and>
   make_move \<lparr>parse_other = (\<lambda>s. None)\<rparr> SupplierManager
       (Call_handleDelete [(''supplier_id'', JStr ''SUP001'')] True)
       (initial_state\<lparr>error := ''Failed to save Supplier: timeout''\<rparr>, [AfterFetch]) =
     (initial_state, [AfterFetch, AfterDelete]) \<and>
   list_all (\<lambda>m. \<not> fails m)
     [Call_handleInputChange ''supplier_id'' ''SUP002'' ''text'' False,
      Settle 0 (Responded True (JArr []))] \<and>
   error (fst (play \<lparr>parse_other = (\<lambda>s. None)\<rparr> SupplierManager
     [Call_handleInputChange ''supplier_id'' ''SUP002'' ''text'' False,
      Settle 0 (Responded True (JArr []))]
     (initial_state, [AfterFetch, AfterDelete]))) = []"
proof -
  let ?h = "\<lparr>parse_other = (\<lambda>s. None)\<rparr>"
  let ?c = "(initial_state\<lparr>error := ''Failed to save Supplier: timeout''\<rparr>, [AfterFetch])"
  let ?ms = "[Call_handleInputChange ''supplier_id'' ''SUP002'' ''text'' False,
      Settle 0 (Responded True (JArr []))]"
  have m: "make_move ?h SupplierManager (Call_handleDelete [(''supplier_id'', JStr ''SUP001'')] True) ?c =
     (initial_state, [AfterFetch, AfterDelete])"
    by (simp add: handleDelete_start_def initial_state_def)
  have l: "list_all (\<lambda>m. \<not> fails m) ?ms"
    by (simp add: response_outcome_def)
  note t = error_cleared_before_request [where p = SupplierManager
      and fr = "Responded False (JObj [(''error'', JStr ''duplicate'')])"
      and fr' = "Responded True (JArr [])"
      and s = "initial_state\<lparr>loading := False, error := ''Failed to save Supplier: timeout''\<rparr>"
      and entity = "[(''supplier_id'', JStr ''SUP001'')]" and e = "[]" and h = ?h and c = ?c]
  have "error (fst (play ?h SupplierManager ?ms
      (make_move ?h SupplierManager (Call_handleDelete [(''supplier_id'', JStr ''SUP001'')] True) ?c))) = []"
    using t l by blast
  then have p: "error (fst (play ?h SupplierManager ?ms (initial_state, [AfterFetch, AfterDelete]))) = []"
    unfolding m .
  have q: "in_flight (snd (handleSubmit SupplierManager
       (Responded False (JObj [(''error'', JStr ''duplicate'')])) (Responded True (JArr []))
       (initial_state\<lparr>loading := False, error := ''Failed to save Supplier: timeout''\<rparr>))) =
     [initial_state\<lparr>loading := False\<rparr>] \<and>
   error (initial_state\<lparr>loading := False\<rparr>) = [] \<and>
   error (fst (handleSubmit SupplierManager
       (Responded False (JObj [(''error'', JStr ''duplicate'')])) (Responded True (JArr []))
       (initial_state\<lparr>loading := False, error := ''Failed to save Supplier: timeout''\<rparr>))) =
     ''Failed to save Supplier: duplicate''"
    by (simp add: handleSubmit_in_flight handleSubmit_failure apiCall_error_field get_def
      SupplierManager_def initial_state_def)
  show ?thesis
    using m l p q by blast
qed

text \<open>The claim as the specification words it (the error is empty while the request is in
  flight) fails when two operations overlap: the component mounts and sends its
  \<^verbatim>\<open>GET\<close>, the user submits the form, and the \<^verbatim>\<open>POST\<close> is rejected before the
  \<^verbatim>\<open>GET\<close> is answered.  The \<^verbatim>\<open>GET\<close> is then still in flight and the error is set.\<close>

theorem error_set_while_in_flight:
  "play \<lparr>parse_other = (\<lambda>s. None)\<rparr> SupplierManager
     [Call_fetchEntities, Call_handleSubmit,
      Settle 1 (Responded False (JObj [(''error'', JStr ''duplicate'')]))]
     (initial_state, []) =
   (initial_state\<lparr>error := ''Failed to save Supplier: duplicate''\<rparr>, [AfterFetch])"
  by (simp add: play_def fetchEntities_start_def handleSubmit_start_def handleSubmit_resume_def
      response_outcome_error_field get_def initial_state_def SupplierManager_def)


section \<open>Cancelling an edit, declining a delete\<close>

text \<open>
  Claim C6.  \<^verbatim>\<open>handleCancelEdit\<close> empties the draft, sets the mode back to Add, empties
  the captured identifier (and the edit id) and the error; it has no effect at all, so it
  sends nothing, and it leaves the records and the loading flag as they were, and the
  requests in flight stay in flight.
\<close>

theorem handleCancelEdit_pure:
  "formData (fst (handleCancelEdit s)) = [] \<and>
   \<not> isEditing (fst (handleCancelEdit s)) \<and>
   editIdentifier (fst (handleCancelEdit s)) = [] \<and>
   editId (fst (handleCancelEdit s)) = JNull \<and>
   error (fst (handleCancelEdit s)) = [] \<and>
   entities (fst (handleCancelEdit s)) = entities s \<and>
   loading (fst (handleCancelEdit s)) = loading s \<and>
   snd (handleCancelEdit s) = [] \<and>
   make_move h p Call_handleCancelEdit (s, ks) = (fst (handleCancelEdit s), ks)"
  by (simp add: handleCancelEdit_def)

text \<open>
  Claim C10.  When the user declines the confirmation, \<^verbatim>\<open>handleDelete\<close> returns the
  state it was given, whole; its only effect is the prompt itself, and it sends no request:
  the requests in flight are the ones that were.
\<close>

theorem handleDelete_declined:
  "fst (handleDelete p entity False fr fr' s) = s \<and>
   requests (snd (handleDelete p entity False fr fr' s)) = [] \<and>
   snd (handleDelete p entity False fr fr' s) =
     [(s, Confirm (''Are you sure you want to delete this '' @ entityName p @ ''?''))] \<and>
   make_move h p (Call_handleDelete entity False) (s, ks) = (s, ks)"
  by (simp add: handleDelete_def)


section \<open>The calendar arithmetic of the Date built-in\<close>

lemma div_succ:
  fixes a k :: int
  assumes "1 < k"
  shows "(a + 1) div k = a div k + (if (a + 1) mod k = 0 then 1 else 0)"
proof (cases "a mod k + 1 = k")
  case True
  have a: "a + 1 = k * (a div k + 1) + 0"
    using True by (simp add: algebra_simps) (metis add.commute add.left_commute mult_div_mod_eq)
  have d: "(a + 1) div k = a div k + 1"
    by (rule int_div_pos_eq [OF a]) (use assms in auto)
  have m: "(a + 1) mod k = 0"
    by (rule int_mod_pos_eq [OF a]) (use assms in auto)
  show ?thesis by (simp add: d m)
next
  case False
  have r: "0 \<le> a mod k" "a mod k < k" using assms by simp_all
  have a: "a + 1 = k * (a div k) + (a mod k + 1)"
    by simp
  have d: "(a + 1) div k = a div k"
    by (rule int_div_pos_eq [OF a]) (use r False in auto)
  have m: "(a + 1) mod k = a mod k + 1"
    by (rule int_mod_pos_eq [OF a]) (use r False in auto)
  show ?thesis using r by (simp add: d m)
qed

lemma div_bounds:
  fixes a k :: int
  assumes "0 < k"
  shows "k * (a div k) \<le> a" "a < k * (a div k) + k"
proof -
  have e: "a = k * (a div k) + a mod k" by simp
  have r: "0 \<le> a mod k" "a mod k < k" using assms by simp_all
  show "k * (a div k) \<le> a" using e r by linarith
  show "a < k * (a div k) + k" using e r by linarith
qed

lemma mod_shift:
  fixes y c k :: int
  assumes "k dvd c"
  shows "(y - c) mod k = y mod k"
  using assms by (metis dvd_imp_mod_0 diff_zero mod_diff_right_eq)

lemma mod_100_4: "(y::int) mod 100 = 0 \<Longrightarrow> y mod 4 = 0"
  using mod_mod_cancel [of 4 100 y] by simp

lemma mod_400_100: "(y::int) mod 400 = 0 \<Longrightarrow> y mod 100 = 0"
  using mod_mod_cancel [of 100 400 y] by simp

lemma DayFromYear_Suc: "DayFromYear (y + 1) = DayFromYear y + DaysInYear y"
proof -
  have m4: "(y - 1969 + 1) mod 4 = y mod 4"
    using mod_shift [of 4 1968 y] by simp
  have m100: "(y - 1901 + 1) mod 100 = y mod 100"
    using mod_shift [of 100 1900 y] by simp
  have m400: "(y - 1601 + 1) mod 400 = y mod 400"
    using mod_shift [of 400 1600 y] by simp
  have a: "(y + 1 - 1969) div 4 = (y - 1969) div 4 + (if y mod 4 = 0 then 1 else 0)"
    using div_succ [of 4 "y - 1969"] m4 by (simp add: algebra_simps)
  have b: "(y + 1 - 1901) div 100 = (y - 1901) div 100 + (if y mod 100 = 0 then 1 else 0)"
    using div_succ [of 100 "y - 1901"] m100 by (simp add: algebra_simps)
  have c: "(y + 1 - 1601) div 400 = (y - 1601) div 400 + (if y mod 400 = 0 then 1 else 0)"
    using div_succ [of 400 "y - 1601"] m400 by (simp add: algebra_simps)
  show ?thesis
    unfolding DayFromYear_def DaysInYear_def a b c
    using mod_100_4 [of y] mod_400_100 [of y] by auto
qed

lemma DaysInYear_pos: "365 \<le> DaysInYear y" "DaysInYear y \<le> 366"
  by (simp_all add: DaysInYear_def)

lemma DayFromYear_mono_aux: "DayFromYear y \<le> DayFromYear (y + int n)"
proof (induction n)
  case 0
  show ?case by simp
next
  case (Suc n)
  have "DayFromYear (y + int (Suc n)) = DayFromYear (y + int n) + DaysInYear (y + int n)"
    using DayFromYear_Suc [of "y + int n"] by (simp add: algebra_simps)
  then show ?case using Suc DaysInYear_pos(1) [of "y + int n"] by linarith
qed

lemma DayFromYear_mono: "y \<le> y' \<Longrightarrow> DayFromYear y \<le> DayFromYear y'"
  using DayFromYear_mono_aux [of y "nat (y' - y)"] by simp

lemma DayFromYear_bounds:
  "146097 * (y - 1970) - 506 \<le> 400 * DayFromYear y"
  "400 * DayFromYear y \<le> 146097 * (y - 1970) + 589"
proof -
  define A where "A = (y - 1969) div 4"
  define B where "B = (y - 1901) div 100"
  define C where "C = (y - 1601) div 400"
  have a: "4 * A \<le> y - 1969" "y - 1969 < 4 * A + 4"
    unfolding A_def by (rule div_bounds, simp)+
  have b: "100 * B \<le> y - 1901" "y - 1901 < 100 * B + 100"
    unfolding B_def by (rule div_bounds, simp)+
  have c: "400 * C \<le> y - 1601" "y - 1601 < 400 * C + 400"
    unfolding C_def by (rule div_bounds, simp)+
  have d: "DayFromYear y = 365 * (y - 1970) + A - B + C"
    by (simp add: DayFromYear_def A_def B_def C_def)
  show "146097 * (y - 1970) - 506 \<le> 400 * DayFromYear y"
    unfolding d using a b c by simp
  show "400 * DayFromYear y \<le> 146097 * (y - 1970) + 589"
    unfolding d using a b c by simp
qed

lemma YearFromDay_bounds:
  "DayFromYear (YearFromDay d) \<le> d" "d < DayFromYear (YearFromDay d + 1)"
proof -
  define q where "q = (d * 400) div 146097"
  have e: "146097 * q \<le> d * 400" "d * 400 < 146097 * q + 146097"
    unfolding q_def by (rule div_bounds, simp)+
  have lo: "DayFromYear (1970 + q - 1) \<le> d"
    using DayFromYear_bounds(2) [of "1970 + q - 1"] e by simp
  have hi: "d < DayFromYear (1970 + q + 1 + 1)"
    using DayFromYear_bounds(1) [of "1970 + q + 1 + 1"] e by simp
  show "DayFromYear (YearFromDay d) \<le> d"
    using lo hi unfolding YearFromDay_def q_def [symmetric] by (simp add: Let_def)
  show "d < DayFromYear (YearFromDay d + 1)"
    using lo hi unfolding YearFromDay_def q_def [symmetric] by (simp add: Let_def)
qed

lemma YearFromDay_unique:
  assumes "DayFromYear y \<le> d" "d < DayFromYear (y + 1)"
  shows "YearFromDay d = y"
proof (rule ccontr)
  assume ne: "YearFromDay d \<noteq> y"
  note b = YearFromDay_bounds [of d]
  show False
  proof (cases "YearFromDay d < y")
    case True
    then have "DayFromYear (YearFromDay d + 1) \<le> DayFromYear y"
      by (intro DayFromYear_mono) simp
    with b assms show False by linarith
  next
    case False
    with ne have "DayFromYear (y + 1) \<le> DayFromYear (YearFromDay d)"
      by (intro DayFromYear_mono) simp
    with b assms show False by linarith
  qed
qed

text \<open>\<^verbatim>\<open>YearFromTime(t)\<close> is the year ECMA-262 specifies: the one whose first instant is
  the last not after \<open>t\<close>.\<close>

lemma YearFromTime_bounds:
  "TimeFromYear (YearFromTime t) \<le> t" "t < TimeFromYear (YearFromTime t + 1)"
proof -
  have e: "msPerDay * Day t \<le> t" "t < msPerDay * Day t + msPerDay"
    unfolding Day_def by (rule div_bounds, simp add: msPerDay_def)+
  have p: "0 < msPerDay" by (simp add: msPerDay_def)
  have "msPerDay * DayFromYear (YearFromDay (Day t)) \<le> msPerDay * Day t"
    using YearFromDay_bounds(1) [of "Day t"] p by simp
  then show "TimeFromYear (YearFromTime t) \<le> t"
    using e unfolding TimeFromYear_def YearFromTime_def by linarith
  have "Day t + 1 \<le> DayFromYear (YearFromDay (Day t) + 1)"
    using YearFromDay_bounds(2) [of "Day t"] by simp
  then have "msPerDay * (Day t + 1) \<le> msPerDay * DayFromYear (YearFromDay (Day t) + 1)"
    using p by simp
  then show "t < TimeFromYear (YearFromTime t + 1)"
    using e unfolding TimeFromYear_def YearFromTime_def by (simp add: algebra_simps)
qed

lemma Day_MakeDate:
  assumes "0 \<le> tod" "tod < msPerDay"
  shows "Day (MakeDate dy tod) = dy"
proof -
  have "MakeDate dy tod = msPerDay * dy + tod"
    by (simp add: MakeDate_def)
  then show ?thesis
    unfolding Day_def using assms by (intro int_div_pos_eq [where r = tod]) simp_all
qed

lemma DayWithinYear_range:
  "0 \<le> DayWithinYear t" "DayWithinYear t < DaysInYear (YearFromTime t)"
  using YearFromDay_bounds [of "Day t"] DayFromYear_Suc [of "YearFromDay (Day t)"]
  by (simp_all add: DayWithinYear_def YearFromTime_def)

lemma InLeapYear_cases:
  "(InLeapYear t = 0 \<and> DaysInYear (YearFromTime t) = 365) \<or>
   (InLeapYear t = 1 \<and> DaysInYear (YearFromTime t) = 366)"
  by (simp add: InLeapYear_def DaysInYear_def)

lemma month_of_range: "0 \<le> month_of l d" "month_of l d \<le> 11"
  by (simp_all add: month_of_def)

lemma date_of_range:
  assumes "l = 0 \<or> l = 1" "0 \<le> d" "d < 365 + l"
  shows "1 \<le> d - month_start l (month_of l d) + 1"
    and "d - month_start l (month_of l d) + 1 \<le>
         (if month_of l d + 1 = 2 then 28 + l
          else if month_of l d + 1 = 4 \<or> month_of l d + 1 = 6 \<or> month_of l d + 1 = 9 \<or>
                  month_of l d + 1 = 11 then 30 else 31)"
  using assms by (auto simp: month_of_def month_start_def)

lemma MonthFromTime_range: "0 \<le> MonthFromTime t" "MonthFromTime t \<le> 11"
  by (simp_all add: MonthFromTime_def month_of_range)

lemma DateFromTime_range:
  "1 \<le> DateFromTime t"
  "DateFromTime t \<le> DaysInMonth (YearFromTime t) (MonthFromTime t + 1)"
proof -
  have l: "InLeapYear t = 0 \<or> InLeapYear t = 1"
    using InLeapYear_cases [of t] by auto
  have r: "0 \<le> DayWithinYear t" "DayWithinYear t < 365 + InLeapYear t"
    using DayWithinYear_range [of t] InLeapYear_cases [of t] by auto
  show "1 \<le> DateFromTime t"
    using date_of_range(1) [OF l r] by (simp add: DateFromTime_def MonthFromTime_def)
  show "DateFromTime t \<le> DaysInMonth (YearFromTime t) (MonthFromTime t + 1)"
    using date_of_range(2) [OF l r] InLeapYear_cases [of t]
    by (auto simp: DateFromTime_def MonthFromTime_def DaysInMonth_def split: if_splits)
qed

lemma month_of_start:
  assumes "l = 0 \<or> l = 1" "0 \<le> m" "m \<le> 11" "1 \<le> d"
    and "d \<le> (if m + 1 = 2 then 28 + l
               else if m + 1 = 4 \<or> m + 1 = 6 \<or> m + 1 = 9 \<or> m + 1 = 11 then 30 else 31)"
  shows "month_of l (month_start l m + d - 1) = m"
    and "0 \<le> month_start l m + d - 1" and "month_start l m + d - 1 < 365 + l"
proof -
  have "m = 0 \<or> m = 1 \<or> m = 2 \<or> m = 3 \<or> m = 4 \<or> m = 5 \<or> m = 6 \<or> m = 7 \<or>
      m = 8 \<or> m = 9 \<or> m = 10 \<or> m = 11"
    using assms(2,3) by presburger
  then have "month_of l (month_start l m + d - 1) = m \<and> 0 \<le> month_start l m + d - 1 \<and>
     month_start l m + d - 1 < 365 + l"
    using assms(1,4,5) by (elim disjE) (auto simp: month_of_def month_start_def)
  then show "month_of l (month_start l m + d - 1) = m"
    and "0 \<le> month_start l m + d - 1" and "month_start l m + d - 1 < 365 + l"
    by simp_all
qed

lemma civil_roundtrip:
  assumes "1 \<le> m" "m \<le> 12" "1 \<le> d" "d \<le> DaysInMonth y m" "0 \<le> tod" "tod < msPerDay"
  shows "YearFromTime (MakeDate (MakeDay y (m - 1) d) tod) = y"
    and "MonthFromTime (MakeDate (MakeDay y (m - 1) d) tod) = m - 1"
    and "DateFromTime (MakeDate (MakeDay y (m - 1) d) tod) = d"
proof -
  define l :: int where "l = (if DaysInYear y = 365 then 0 else 1)"
  define t where "t = MakeDate (MakeDay y (m - 1) d) tod"
  have l01: "l = 0 \<or> l = 1" by (simp add: l_def)
  have diy: "DaysInYear y = 365 + l" by (simp add: l_def DaysInYear_def)
  have dim: "d \<le> (if m - 1 + 1 = 2 then 28 + l
               else if m - 1 + 1 = 4 \<or> m - 1 + 1 = 6 \<or> m - 1 + 1 = 9 \<or> m - 1 + 1 = 11 then 30 else 31)"
    using assms(4) by (auto simp: DaysInMonth_def l_def split: if_splits)
  have m0: "0 \<le> m - 1" "m - 1 \<le> 11" using assms(1,2) by simp_all
  note ms = month_of_start [OF l01 m0 assms(3) dim]
  have day: "Day t = DayFromYear y + (month_start l (m - 1) + d - 1)"
    unfolding t_def by (simp add: Day_MakeDate [OF assms(5,6)] MakeDay_def l_def)
  have yr: "YearFromTime t = y"
    unfolding YearFromTime_def
    by (rule YearFromDay_unique) (use day ms(2,3) diy DayFromYear_Suc [of y] in simp_all)
  have leap: "InLeapYear t = l"
    by (simp add: InLeapYear_def yr l_def)
  have dwy: "DayWithinYear t = month_start l (m - 1) + d - 1"
    by (simp add: DayWithinYear_def yr day)
  have mo: "MonthFromTime t = m - 1"
    by (simp add: MonthFromTime_def leap dwy ms(1))
  show "YearFromTime (MakeDate (MakeDay y (m - 1) d) tod) = y"
    using yr by (simp add: t_def)
  show "MonthFromTime (MakeDate (MakeDay y (m - 1) d) tod) = m - 1"
    using mo by (simp add: t_def)
  show "DateFromTime (MakeDate (MakeDay y (m - 1) d) tod) = d"
    using mo leap dwy by (simp add: DateFromTime_def t_def [symmetric])
qed

lemma pad_2: "pad 2 n = [digit_char (n div 10), digit_char n]"
  unfolding numeral_2_eq_2 by simp

lemma pad_3: "pad 3 n = [digit_char (n div 10 div 10), digit_char (n div 10), digit_char n]"
  unfolding numeral_3_eq_3 by simp

lemma pad_4:
  "pad 4 n = [digit_char (n div 10 div 10 div 10), digit_char (n div 10 div 10),
              digit_char (n div 10), digit_char n]"
proof -
  have "(4::nat) = Suc (Suc (Suc (Suc 0)))" by simp
  show ?thesis unfolding \<open>(4::nat) = Suc (Suc (Suc (Suc 0)))\<close> by simp
qed

lemma pad_6:
  "pad 6 n = [digit_char (n div 10 div 10 div 10 div 10 div 10), digit_char (n div 10 div 10 div 10 div 10),
              digit_char (n div 10 div 10 div 10), digit_char (n div 10 div 10),
              digit_char (n div 10), digit_char n]"
proof -
  have "(6::nat) = Suc (Suc (Suc (Suc (Suc (Suc 0)))))" by simp
  show ?thesis unfolding \<open>(6::nat) = Suc (Suc (Suc (Suc (Suc (Suc 0)))))\<close> by simp
qed


section \<open>Dates as strings\<close>

lemma is_digit_digit_char: "is_digit (digit_char n)"
  unfolding is_digit_def digit_char_def by (rule nth_mem) simp

lemma digit_val_range: "0 \<le> digit_val c" "digit_val c \<le> 9"
  by (simp_all add: digit_val_def)

lemma small_nat_cases:
  "(k::nat) < 10 \<Longrightarrow> k = 0 \<or> k = 1 \<or> k = 2 \<or> k = 3 \<or> k = 4 \<or> k = 5 \<or> k = 6 \<or> k = 7 \<or> k = 8 \<or> k = 9"
  by arith

lemma digit_val_digit_char: "digit_val (digit_char n) = int (n mod 10)"
proof -
  have "n mod 10 < 10" by simp
  from small_nat_cases [OF this] show ?thesis
    by (elim disjE) (simp_all add: digit_val_def digit_char_def)
qed

lemma digit_char_digit_val: "is_digit c \<Longrightarrow> digit_char (nat (digit_val c)) = c"
  by (auto simp: is_digit_def digit_val_def digit_char_def)

lemma digit_not_T: "is_digit c \<Longrightarrow> c \<noteq> CHR ''T''"
  by (auto simp: is_digit_def)

lemma set_pad: "c \<in> set (pad k n) \<Longrightarrow> is_digit c"
  by (induction k arbitrary: n) (auto simp: is_digit_digit_char)

lemma digit_char_mod: "digit_char (n mod 10) = digit_char n"
  by (simp add: digit_char_def)

lemma digit_char_step: "b < 10 \<Longrightarrow> digit_char (10 * a + b) = digit_char b"
  using digit_char_mod [of "10 * a + b"] by simp

lemma pad_2_num2:
  assumes "is_digit a" "is_digit b"
  shows "pad 2 (nat (num2 a b)) = [a, b]"
proof -
  define x where "x = nat (digit_val a)"
  define y where "y = nat (digit_val b)"
  have n: "nat (num2 a b) = 10 * x + y"
    using digit_val_range [of a] digit_val_range [of b] by (simp add: num2_def x_def y_def nat_add_distrib nat_mult_distrib)
  have y: "y < 10" using digit_val_range [of b] by (simp add: y_def)
  show ?thesis
    using assms y by (simp add: pad_2 n digit_char_step) (simp add: x_def y_def digit_char_digit_val)
qed


lemma pad_step: "b < 10 \<Longrightarrow> pad (Suc k) (10 * a + b) = pad k a @ [digit_char b]"
  by (simp add: digit_char_step)

lemma pad_4_year:
  assumes "is_digit a" "is_digit b" "is_digit c" "is_digit d"
  shows "pad 4 (nat (100 * num2 a b + num2 c d)) = [a, b, c, d]"
proof -
  define x1 where "x1 = nat (digit_val a)"
  define x2 where "x2 = nat (digit_val b)"
  define x3 where "x3 = nat (digit_val c)"
  define x4 where "x4 = nat (digit_val d)"
  define u where "u = 10 * x1 + x2"
  define v where "v = 10 * u + x3"
  have n: "nat (100 * num2 a b + num2 c d) = 10 * v + x4"
    using digit_val_range [of a] digit_val_range [of b] digit_val_range [of c] digit_val_range [of d]
    by (simp add: num2_def x1_def x2_def x3_def x4_def u_def v_def nat_add_distrib nat_mult_distrib)
  have r: "x1 < 10" "x2 < 10" "x3 < 10" "x4 < 10"
    using digit_val_range [of a] digit_val_range [of b] digit_val_range [of c] digit_val_range [of d]
    by (simp_all add: x1_def x2_def x3_def x4_def)
  have s4: "(4::nat) = Suc (Suc (Suc (Suc 0)))" by simp
  have p1: "pad (Suc 0) x1 = [digit_char x1]"
    using pad_step [of x1 0 0] r(1) by simp
  have p2: "pad (Suc (Suc 0)) u = [digit_char x1, digit_char x2]"
    unfolding u_def using pad_step [OF r(2), of "Suc 0" x1] p1 by simp
  have p3: "pad (Suc (Suc (Suc 0))) v = [digit_char x1, digit_char x2, digit_char x3]"
    unfolding v_def using pad_step [OF r(3), of "Suc (Suc 0)" u] p2 by simp
  have p4: "pad (Suc (Suc (Suc (Suc 0)))) (10 * v + x4) =
      [digit_char x1, digit_char x2, digit_char x3, digit_char x4]"
    using pad_step [OF r(4), of "Suc (Suc (Suc 0))" v] p3 by simp
  show ?thesis
    unfolding n s4 p4 using assms
    by (simp add: x1_def x2_def x3_def x4_def digit_char_digit_val)
qed

lemma num2_digit_chars:
  assumes "n < 100"
  shows "num2 (digit_char (n div 10)) (digit_char n) = int n"
proof -
  define a where "a = n div 10"
  define r where "r = n mod 10"
  have n: "n = 10 * a + r" by (simp add: a_def r_def)
  have a: "a mod 10 = a" using assms by (simp add: a_def)
  have "num2 (digit_char a) (digit_char n) = 10 * int (a mod 10) + int r"
    by (simp add: num2_def digit_val_digit_char r_def)
  then show ?thesis
    unfolding a_def [symmetric] a by (simp add: n)
qed

lemma year_digit_chars:
  assumes "n < 10000"
  shows "100 * num2 (digit_char (n div 10 div 10 div 10)) (digit_char (n div 10 div 10)) +
     num2 (digit_char (n div 10)) (digit_char n) = int n"
proof -
  define a where "a = n div 10"
  define b where "b = a div 10"
  define c where "c = b div 10"
  define r0 where "r0 = n mod 10"
  define r1 where "r1 = a mod 10"
  define r2 where "r2 = b mod 10"
  have n: "n = 10 * a + r0" by (simp add: a_def r0_def)
  have a: "a = 10 * b + r1" by (simp add: b_def r1_def)
  have b: "b = 10 * c + r2" by (simp add: c_def r2_def)
  have c: "c mod 10 = c" using assms by (simp add: c_def b_def a_def div_mult2_eq [symmetric])
  have "100 * num2 (digit_char c) (digit_char b) + num2 (digit_char a) (digit_char n) =
      100 * (10 * int (c mod 10) + int r2) + (10 * int r1 + int r0)"
    by (simp add: num2_def digit_val_digit_char r0_def r1_def r2_def)
  also have "\<dots> = int (10 * (10 * (10 * c + r2) + r1) + r0)"
    by (simp add: c)
  also have "\<dots> = int n"
    using n a b by simp
  finally show ?thesis
    by (simp add: a_def b_def c_def)
qed


lemma parse_ymd_pad:
  assumes "0 \<le> y" "y \<le> 9999" "1 \<le> m" "m \<le> 12" "1 \<le> d" "d \<le> DaysInMonth y m"
  shows "parse_ymd (pad 4 (nat y) @ ''-'' @ pad 2 (nat m) @ ''-'' @ pad 2 (nat d)) = Some (y, m, d)"
proof -
  have d31: "d \<le> 31" using assms(6) by (simp add: DaysInMonth_def split: if_splits)
  have y: "100 * num2 (digit_char (nat y div 10 div 10 div 10)) (digit_char (nat y div 10 div 10)) +
     num2 (digit_char (nat y div 10)) (digit_char (nat y)) = y"
    using year_digit_chars [of "nat y"] assms(1,2) by simp
  have m: "num2 (digit_char (nat m div 10)) (digit_char (nat m)) = m"
    using num2_digit_chars [of "nat m"] assms(3,4) by simp
  have d: "num2 (digit_char (nat d div 10)) (digit_char (nat d)) = d"
    using num2_digit_chars [of "nat d"] assms(5) d31 by simp
  show ?thesis
    using assms by (simp add: parse_ymd_def pad_4 pad_2 is_digit_digit_char y m d Let_def)
qed

lemma length_10:
  assumes "length s = 10"
  shows "s = [s ! 0, s ! 1, s ! 2, s ! 3, s ! 4, s ! 5, s ! 6, s ! 7, s ! 8, s ! 9]"
proof (rule nth_equalityI)
  show "length s = length [s ! 0, s ! 1, s ! 2, s ! 3, s ! 4, s ! 5, s ! 6, s ! 7, s ! 8, s ! 9]"
    using assms by simp
next
  fix i assume "i < length s"
  then have "i < 10" using assms by simp
  from small_nat_cases [OF this]
  show "s ! i = [s ! 0, s ! 1, s ! 2, s ! 3, s ! 4, s ! 5, s ! 6, s ! 7, s ! 8, s ! 9] ! i"
    by (elim disjE) simp_all
qed

lemma parse_ymd_SomeD:
  assumes "parse_ymd s = Some (y, m, d)"
  shows "0 \<le> y" "y \<le> 9999" "1 \<le> m" "m \<le> 12" "1 \<le> d" "d \<le> DaysInMonth y m"
    and "s = pad 4 (nat y) @ ''-'' @ pad 2 (nat m) @ ''-'' @ pad 2 (nat d)"
proof -
  have dg: "length s = 10" "is_digit (s ! 0)" "is_digit (s ! 1)" "is_digit (s ! 2)" "is_digit (s ! 3)"
      "is_digit (s ! 5)" "is_digit (s ! 6)" "is_digit (s ! 8)" "is_digit (s ! 9)"
      "s ! 4 = CHR ''-''" "s ! 7 = CHR ''-''"
    using assms by (simp_all add: parse_ymd_def split: if_splits)
  have v: "y = 100 * num2 (s ! 0) (s ! 1) + num2 (s ! 2) (s ! 3)" "m = num2 (s ! 5) (s ! 6)"
      "d = num2 (s ! 8) (s ! 9)" "1 \<le> m" "m \<le> 12" "1 \<le> d" "d \<le> DaysInMonth y m"
    using assms by (simp_all add: parse_ymd_def Let_def split: if_splits)
  have n2: "0 \<le> num2 a b \<and> num2 a b \<le> 99" for a b
    using digit_val_range [of a] digit_val_range [of b] by (simp add: num2_def)
  show "0 \<le> y" "y \<le> 9999"
    using n2 [of "s ! 0" "s ! 1"] n2 [of "s ! 2" "s ! 3"] by (simp_all add: v(1))
  show "1 \<le> m" "m \<le> 12" "1 \<le> d" "d \<le> DaysInMonth y m"
    using v by simp_all
  have "pad 4 (nat y) @ ''-'' @ pad 2 (nat m) @ ''-'' @ pad 2 (nat d) =
      [s ! 0, s ! 1, s ! 2, s ! 3, s ! 4, s ! 5, s ! 6, s ! 7, s ! 8, s ! 9]"
    using dg by (simp add: v(1,2,3) pad_4_year pad_2_num2)
  then show "s = pad 4 (nat y) @ ''-'' @ pad 2 (nat m) @ ''-'' @ pad 2 (nat d)"
    using length_10 [OF dg(1)] by simp
qed

lemma num2_range: "0 \<le> num2 a b" "num2 a b \<le> 99"
  using digit_val_range [of a] digit_val_range [of b] by (simp_all add: num2_def)

lemma parse_hm_SomeD:
  "parse_hm s = Some (h, mi) \<Longrightarrow> 0 \<le> h \<and> h \<le> 23 \<and> 0 \<le> mi \<and> mi \<le> 59"
  by (auto simp: parse_hm_def num2_range split: if_splits)

lemma parse_millis_SomeD:
  "parse_millis r = Some (ms, r2) \<Longrightarrow> 0 \<le> ms \<and> ms \<le> 999"
proof (induction r rule: parse_millis.induct)
  case (1 c a b d r)
  then show ?case
    using digit_val_range [of a] num2_range [of b d] by (auto split: if_splits)
qed auto

lemma parse_seconds_SomeD:
  "parse_seconds r = Some (sec, ms, r3) \<Longrightarrow> 0 \<le> sec \<and> sec \<le> 59 \<and> 0 \<le> ms \<and> ms \<le> 999"
proof (induction r rule: parse_seconds.induct)
  case (1 c a b r)
  then show ?case
    using num2_range [of a b] parse_millis_SomeD [of r ms r3]
    by (auto split: if_splits option.splits)
qed auto

lemma parse_offset_SomeD:
  "parse_offset s = Some off \<Longrightarrow> - 1439 \<le> off \<and> off \<le> 1439"
  using num2_range [of "s ! 1" "s ! 2"] num2_range [of "s ! 4" "s ! 5"]
  by (auto simp: parse_offset_def split: if_splits)

lemma MakeTime_range:
  assumes "0 \<le> h" "h \<le> 23" "0 \<le> mi" "mi \<le> 59" "0 \<le> sec" "sec \<le> 59" "0 \<le> ms" "ms \<le> 999"
  shows "0 \<le> MakeTime h mi sec ms" "MakeTime h mi sec ms < msPerDay"
  using assms by (simp_all add: MakeTime_def msPerDay_def msPerHour_def msPerMinute_def msPerSecond_def)

lemma parse_iso_fields_SomeD:
  assumes "parse_iso_fields ts = Some (y, m, d, tod, off)"
  shows "parse_ymd (take 10 ts) = Some (y, m, d)" "0 \<le> tod" "tod < msPerDay"
    "- 1439 \<le> off" "off \<le> 1439"
proof -
  have ymd: "parse_ymd (take 10 ts) = Some (y, m, d)"
    using assms by (auto simp: parse_iso_fields_def split: option.splits list.splits if_splits)
  have "0 \<le> tod \<and> tod < msPerDay \<and> - 1439 \<le> off \<and> off \<le> 1439"
  proof (cases "drop 10 ts")
    case Nil
    then have "tod = 0 \<and> off = 0"
      using assms ymd by (simp add: parse_iso_fields_def)
    then show ?thesis by (simp add: msPerDay_def)
  next
    case (Cons c r)
    obtain h mi sec ms r3 where
      p: "parse_hm (take 5 r) = Some (h, mi)" "parse_seconds (drop 5 r) = Some (sec, ms, r3)"
        "parse_offset r3 = Some off" "tod = MakeTime h mi sec ms"
      using assms ymd Cons
      by (auto simp: parse_iso_fields_def split: option.splits if_splits)
    show ?thesis
      using parse_hm_SomeD [OF p(1)] parse_seconds_SomeD [OF p(2)]
        parse_offset_SomeD [OF p(3)] MakeTime_range [of h mi sec ms] p(4)
      by simp
  qed
  then show "parse_ymd (take 10 ts) = Some (y, m, d)" "0 \<le> tod" "tod < msPerDay"
    "- 1439 \<le> off" "off \<le> 1439"
    using ymd by simp_all
qed

lemma MakeDay_range:
  assumes "0 \<le> y" "y \<le> 9999" "1 \<le> m" "m \<le> 12" "1 \<le> d" "d \<le> DaysInMonth y m"
  shows "- 719530 \<le> MakeDay y (m - 1) d" "MakeDay y (m - 1) d \<le> 2933000"
proof -
  define l :: int where "l = (if DaysInYear y = 365 then 0 else 1)"
  have l01: "l = 0 \<or> l = 1" by (simp add: l_def)
  have dim: "d \<le> (if m - 1 + 1 = 2 then 28 + l
               else if m - 1 + 1 = 4 \<or> m - 1 + 1 = 6 \<or> m - 1 + 1 = 9 \<or> m - 1 + 1 = 11 then 30 else 31)"
    using assms(6) by (auto simp: DaysInMonth_def l_def split: if_splits)
  have m0: "0 \<le> m - 1" "m - 1 \<le> 11" using assms(3,4) by simp_all
  note ms = month_of_start [OF l01 m0 assms(5) dim]
  have md: "MakeDay y (m - 1) d = DayFromYear y + (month_start l (m - 1) + d - 1)"
    by (simp add: MakeDay_def l_def)
  note b = DayFromYear_bounds [of y]
  show "- 719530 \<le> MakeDay y (m - 1) d"
    unfolding md using b(1) ms(2) assms(1) by simp
  show "MakeDay y (m - 1) d \<le> 2933000"
    unfolding md using b(2) ms(3) assms(2) l01 by auto
qed

lemma parse_iso_TimeClip:
  assumes "parse_iso ts = Some t"
  shows "TimeClip t = Some t"
proof -
  obtain y m d tod off where f: "parse_iso_fields ts = Some (y, m, d, tod, off)"
    and t: "t = MakeDate (MakeDay y (m - 1) d) tod - off * msPerMinute"
    using assms by (auto simp: parse_iso_def split: option.splits)
  note r = parse_iso_fields_SomeD [OF f]
  note c = parse_ymd_SomeD [OF r(1)]
  note md = MakeDay_range [OF c(1-6)]
  have "abs t \<le> 8640000000000000"
    unfolding t MakeDate_def using md r(2-5) by (simp add: msPerDay_def msPerMinute_def abs_le_iff)
  then show ?thesis by (simp add: TimeClip_def)
qed

lemma pad_no_T: "CHR ''T'' \<notin> set (pad k n)"
  using set_pad digit_not_T by blast

lemma iso_year_no_T: "CHR ''T'' \<notin> set (iso_year y)"
  by (simp add: iso_year_def pad_no_T)

lemma iso_date_no_T: "CHR ''T'' \<notin> set (iso_date t)"
  by (simp add: iso_date_def pad_no_T iso_year_no_T)

lemma split_first_iso: "split_first CHR ''T'' (iso_date t @ ''T'' @ rest) = iso_date t"
proof -
  have "takeWhile (\<lambda>x. x \<noteq> CHR ''T'') (iso_date t @ ''T'' @ rest) =
      iso_date t @ takeWhile (\<lambda>x. x \<noteq> CHR ''T'') (''T'' @ rest)"
    by (rule takeWhile_append2) (use iso_date_no_T [of t] in auto)
  then show ?thesis by (simp add: split_first_def)
qed

lemma date_only_time: "date_only h (JStr ts) =
    (case Date_parse h ts of None \<Rightarrow> Inl (RangeError ''Invalid time value'') | Some t \<Rightarrow> Inr (iso_date t))"
  using split_first_iso by (simp add: date_only_def toISOString_def split: option.splits)

lemma date_only_iso:
  assumes "parse_iso ts = Some t"
  shows "date_only h (JStr ts) = Inr (iso_date t)"
  using assms parse_iso_TimeClip [OF assms] by (simp add: date_only_time Date_parse_def)

lemma iso_date_calendar:
  assumes "0 \<le> YearFromTime t" "YearFromTime t \<le> 9999"
  shows "parse_ymd (iso_date t) = Some (YearFromTime t, MonthFromTime t + 1, DateFromTime t)"
proof -
  have "parse_ymd (pad 4 (nat (YearFromTime t)) @ ''-'' @ pad 2 (nat (MonthFromTime t + 1)) @ ''-'' @
      pad 2 (nat (DateFromTime t))) = Some (YearFromTime t, MonthFromTime t + 1, DateFromTime t)"
    by (rule parse_ymd_pad) (use assms MonthFromTime_range [of t] DateFromTime_range [of t] in simp_all)
  then show ?thesis
    using assms by (simp add: iso_date_def iso_year_def)
qed

lemma iso_date_zone_zero:
  assumes "parse_iso_fields ts = Some (y, m, d, tod, 0)"
  shows "parse_iso ts = Some (MakeDate (MakeDay y (m - 1) d) tod)"
    and "iso_date (MakeDate (MakeDay y (m - 1) d) tod) = take 10 ts"
proof -
  note r = parse_iso_fields_SomeD [OF assms]
  note c = parse_ymd_SomeD [OF r(1)]
  note rt = civil_roundtrip [OF c(3-6) r(2,3)]
  show "parse_iso ts = Some (MakeDate (MakeDay y (m - 1) d) tod)"
    using assms by (simp add: parse_iso_def)
  show "iso_date (MakeDate (MakeDay y (m - 1) d) tod) = take 10 ts"
    unfolding c(7) using c(1,2) by (simp add: iso_date_def iso_year_def rt)
qed

section \<open>Editing a record\<close>

lemma get_set_prop: "get (set_prop k v ob) k' = (if k' = k then v else get ob k')"
  by (simp add: get_def set_prop_def update_conv')

lemma captureIdentifier_get:
  "get (captureIdentifier ids r acc) k = (if k \<in> set ids then get r k else get acc k)"
  by (induction ids arbitrary: acc) (auto simp: get_set_prop)

lemma captured_values:
  "map (get (captureIdentifier ids r [])) ids = map (get r) ids"
  by (simp add: captureIdentifier_get)

lemma identifierPath_captured:
  "identifierPath ids (captureIdentifier ids r []) = identifierPath ids r"
  by (simp add: identifierPath_def captureIdentifier_get cong: map_cong)

lemma handleEdit_Inr:
  assumes "handleEdit h p r s = Inr s1"
  shows "normalizeDates h (formFields p) r = Inr (formData s1)"
    and "isEditing s1"
    and "editIdentifier s1 = captureIdentifier (uniqueIdentifierFields p) r []"
    and "editId s1 = get r ''_id''"
    and "entities s1 = entities s" and "loading s1 = loading s" and "error s1 = error s"
  using assms by (auto simp: handleEdit_def split: sum.splits)

lemma input_changes_frame:
  "isEditing (input_changes cs s) = isEditing s"
  "editIdentifier (input_changes cs s) = editIdentifier s"
  unfolding input_changes_def
  by (induction cs arbitrary: s) (auto simp: handleInputChange_def)

lemma handleSubmit_first_request:
  "take 1 (requests (snd (handleSubmit p fr fr' s))) =
     [if isEditing s
      then request_of (endpoint p @ ''/'' @ identifierPath (uniqueIdentifierFields p) (editIdentifier s))
             ''PUT'' (JObj (formData s))
      else request_of (endpoint p) ''POST'' (JObj (formData s))]"
  by (cases "isEditing s")
     (simp_all add: handleSubmit_def Let_def case_prod_beta requests_append apiCall_requests
        split: sum.splits)

lemma handleDelete_first_request:
  "take 1 (requests (snd (handleDelete p r True fr fr' s))) =
     [request_of (endpoint p @ ''/'' @ identifierPath (uniqueIdentifierFields p) r) ''DELETE'' JNull]"
  using requests_append [of "[(s, Confirm c)]" for c]
  by (simp add: handleDelete_def Let_def case_prod_beta requests_append apiCall_requests
        split: sum.splits)

lemma get_set_prop_same: "get (set_prop k v ob) k = v"
  by (simp add: get_set_prop)

lemma normalizeDates_other:
  assumes "normalizeDates h fs ob = Inr ob'" "k \<notin> name ` {f \<in> set fs. type f = ''date''}"
  shows "get ob' k = get ob k"
  using assms
proof (induction fs arbitrary: ob)
  case Nil
  then show ?case by simp
next
  case (Cons f fs)
  show ?case
  proof (cases "type f = ''date'' \<and> truthy (get ob (name f))")
    case True
    then obtain d where d: "date_only h (get ob (name f)) = Inr d"
      and n: "normalizeDates h fs (set_prop (name f) (JStr d) ob) = Inr ob'"
      using Cons.prems(1) by (auto split: sum.splits)
    have "k \<noteq> name f" using True Cons.prems(2) by auto
    moreover have "k \<notin> name ` {f \<in> set fs. type f = ''date''}" using Cons.prems(2) by auto
    ultimately show ?thesis
      using Cons.IH [OF n] by (simp add: get_set_prop)
  next
    case False
    then have n: "normalizeDates h fs ob = Inr ob'"
      using Cons.prems(1) by auto
    have "k \<notin> name ` {f \<in> set fs. type f = ''date''}" using Cons.prems(2) by auto
    then show ?thesis using Cons.IH [OF n] by simp
  qed
qed

lemma normalizeDates_date:
  assumes "normalizeDates h fs ob = Inr ob'" "distinct (map name fs)" "f \<in> set fs"
    "type f = ''date''" "truthy (get ob (name f))"
  shows "\<exists>d. date_only h (get ob (name f)) = Inr d \<and> get ob' (name f) = JStr d"
  using assms(1,2,3,5)
proof (induction fs arbitrary: ob)
  case Nil
  then show ?case by simp
next
  case (Cons g fs)
  have nf: "name g \<notin> name ` set fs" using Cons.prems(2) by auto
  show ?case
  proof (cases "f = g")
    case True
    then obtain d where d: "date_only h (get ob (name f)) = Inr d"
      and n: "normalizeDates h fs (set_prop (name f) (JStr d) ob) = Inr ob'"
      using Cons.prems(1,4) assms(4) by (auto split: sum.splits)
    have "name f \<notin> name ` {f \<in> set fs. type f = ''date''}" using nf True by auto
    from normalizeDates_other [OF n this] d show ?thesis
      by (simp add: get_set_prop)
  next
    case False
    then have fin: "f \<in> set fs" using Cons.prems(3) by simp
    then have ne: "name f \<noteq> name g" using nf by (metis image_eqI)
    have dist: "distinct (map name fs)" using Cons.prems(2) by simp
    show ?thesis
    proof (cases "type g = ''date'' \<and> truthy (get ob (name g))")
      case True
      then obtain d where d: "date_only h (get ob (name g)) = Inr d"
        and n: "normalizeDates h fs (set_prop (name g) (JStr d) ob) = Inr ob'"
        using Cons.prems(1) by (auto split: sum.splits)
      have t: "truthy (get (set_prop (name g) (JStr d) ob) (name f))"
        using Cons.prems(4) ne by (simp add: get_set_prop)
      from Cons.IH [OF n dist fin t] show ?thesis
        using ne by (simp add: get_set_prop)
    next
      case False
      then have n: "normalizeDates h fs ob = Inr ob'"
        using Cons.prems(1) by auto
      from Cons.IH [OF n dist fin Cons.prems(4)] show ?thesis .
    qed
  qed
qed

lemmas date_eval =
  parse_iso_def parse_iso_fields_def parse_ymd_def parse_hm_def parse_offset_def is_digit_def
  num2_def digit_val_def DaysInMonth_def DaysInYear_def MakeTime_def MakeDate_def MakeDay_def
  DayFromYear_def month_start_def msPerDay_def msPerHour_def msPerMinute_def msPerSecond_def

lemmas iso_eval =
  iso_date_def iso_year_def YearFromTime_def YearFromDay_def Day_def MonthFromTime_def
  month_of_def InLeapYear_def DayWithinYear_def DateFromTime_def DaysInYear_def DayFromYear_def
  month_start_def msPerDay_def digit_char_def Let_def pad_2 pad_4 pad_6

lemma parse_iso_example: "parse_iso ''2024-03-05T00:00:00Z'' = Some 1709596800000"
  by (simp add: date_eval)

lemma iso_date_example: "iso_date 1709596800000 = ''2024-03-05''"
  by (simp add: iso_eval)

lemma parse_iso_far: "parse_iso ''9999-12-31T23:59:59-01:00'' = Some 253402304399000"
  by (simp add: date_eval)

lemma iso_date_far: "iso_date 253402304399000 = ''+010000-01-01''"
  by (simp add: iso_eval)

lemma handleEdit_cost_record:
  assumes "ts \<noteq> []"
  shows "handleEdit h RawMaterialCostManager
     [(''_id'', i), (''product_id'', pid), (''supplier_id'', sid),
      (''cost_per_unit'', c), (''currency'', cur), (''effective_date'', JStr ts)] s =
    (case date_only h (JStr ts) of
       Inl e \<Rightarrow> Inl e
     | Inr d \<Rightarrow>
         Inr (s\<lparr>formData :=
                  [(''_id'', i), (''product_id'', pid), (''supplier_id'', sid),
                   (''cost_per_unit'', c), (''currency'', cur), (''effective_date'', JStr d)],
                isEditing := True, editId := i,
                editIdentifier :=
                  [(''product_id'', pid), (''supplier_id'', sid),
                   (''effective_date'', JStr ts)]\<rparr>))"
  using assms
  by (simp add: handleEdit_def RawMaterialCostManager_def form_field_def get_def set_prop_def
      split: sum.splits)

lemma parse_iso_empty: "parse_iso [] = None"
  by (simp add: parse_iso_def parse_iso_fields_def parse_ymd_def)

lemma date_only_parsed:
  assumes "Date_parse h ts = Some t"
  shows "date_only h (JStr ts) = Inr (iso_date t)"
  using assms by (simp add: date_only_time)

text \<open>
  What \<^verbatim>\<open>handleEdit\<close> does to a date field where claim C7 holds.  Let \<open>f\<close> be a form
  field of type \<^verbatim>\<open>date\<close> (the field names of the schema being distinct) and let the record
  hold at \<open>f\<close> a non-empty string \<open>ts\<close> that the Date built-in parses, to the instant \<open>t\<close>
  (any string it parses: of the date-time format with or without a zone, with an expanded
  year, or of a shape the host accepts).  Then, when \<^verbatim>\<open>handleEdit\<close> returns, the draft
  holds at \<open>f\<close> the date part of \<^verbatim>\<open>toISOString\<close> at \<open>t\<close>, which is the UTC calendar date
  of \<open>t\<close>: it is a \<^verbatim>\<open>YYYY-MM-DD\<close> string naming the year, month and day of \<open>t\<close> whenever
  that year lies in 0..9999, and it is the first ten characters of \<open>ts\<close> itself whenever
  \<open>ts\<close> is of the date-time format with the zone \<^verbatim>\<open>Z\<close>, or a date alone.
\<close>

lemma handleEdit_date_in_range:
  assumes "handleEdit h p r s = Inr s1"
    and "distinct (map name (formFields p))"
    and "f \<in> set (formFields p)" and "type f = ''date''"
    and "get r (name f) = JStr ts" and "ts \<noteq> []" and "Date_parse h ts = Some t"
  shows "get (formData s1) (name f) = JStr (iso_date t) \<and>
    (0 \<le> YearFromTime t \<and> YearFromTime t \<le> 9999 \<longrightarrow>
       parse_ymd (iso_date t) = Some (YearFromTime t, MonthFromTime t + 1, DateFromTime t)) \<and>
    (\<forall>y m d tod. parse_iso_fields ts = Some (y, m, d, tod, 0) \<longrightarrow> iso_date t = take 10 ts)"
proof -
  have n: "normalizeDates h (formFields p) r = Inr (formData s1)"
    using handleEdit_Inr(1) [OF assms(1)] .
  have tr: "truthy (get r (name f))"
    using assms(5,6) by simp
  obtain d where d: "date_only h (get r (name f)) = Inr d" "get (formData s1) (name f) = JStr d"
    using normalizeDates_date [OF n assms(2,3,4) tr] by blast
  have a: "get (formData s1) (name f) = JStr (iso_date t)"
    using d date_only_parsed [OF assms(7)] by (simp add: assms(5))
  have c: "iso_date t = take 10 ts" if z: "parse_iso_fields ts = Some (y, m, d, tod, 0)" for y m d tod
  proof -
    note i = iso_date_zone_zero [OF z]
    have "TimeClip (MakeDate (MakeDay y (m - 1) d) tod) = Some t"
      using assms(7) i(1) by (simp add: Date_parse_def)
    then have "t = MakeDate (MakeDay y (m - 1) d) tod"
      by (simp add: TimeClip_def split: if_splits)
    then show ?thesis using i(2) by simp
  qed
  show ?thesis
    using a c iso_date_calendar [of t] by blast
qed

text \<open>The example of the specification: \<^verbatim>\<open>effective_date = "2024-03-05T00:00:00Z"\<close>
  on the raw material cost page gives the draft value \<^verbatim>\<open>"2024-03-05"\<close>.\<close>

lemma handleEdit_example_date:
  "handleEdit \<lparr>parse_other = (\<lambda>s. None)\<rparr> RawMaterialCostManager
     [(''_id'', JStr ''66a1''), (''product_id'', JStr ''PRD001''), (''supplier_id'', JStr ''SUP001''),
      (''cost_per_unit'', JNum ''10.5''), (''currency'', JStr ''USD''),
      (''effective_date'', JStr ''2024-03-05T00:00:00Z'')]
     (initial_state\<lparr>
        entities := JArr [JObj
          [(''_id'', JStr ''66a1''), (''product_id'', JStr ''PRD001''),
           (''supplier_id'', JStr ''SUP001''), (''cost_per_unit'', JNum ''10.5''),
           (''currency'', JStr ''USD''), (''effective_date'', JStr ''2024-03-05T00:00:00Z'')]],
        loading := False\<rparr>) =
   Inr (initial_state\<lparr>
        entities := JArr [JObj
          [(''_id'', JStr ''66a1''), (''product_id'', JStr ''PRD001''),
           (''supplier_id'', JStr ''SUP001''), (''cost_per_unit'', JNum ''10.5''),
           (''currency'', JStr ''USD''), (''effective_date'', JStr ''2024-03-05T00:00:00Z'')]],
        loading := False,
        formData :=
                  [(''_id'', JStr ''66a1''), (''product_id'', JStr ''PRD001''),
                   (''supplier_id'', JStr ''SUP001''), (''cost_per_unit'', JNum ''10.5''),
                   (''currency'', JStr ''USD''), (''effective_date'', JStr ''2024-03-05'')],
                isEditing := True, editId := JStr ''66a1'',
                editIdentifier :=
                  [(''product_id'', JStr ''PRD001''), (''supplier_id'', JStr ''SUP001''),
                   (''effective_date'', JStr ''2024-03-05T00:00:00Z'')]\<rparr>)"
  by (simp add: handleEdit_cost_record date_only_iso [OF parse_iso_example] iso_date_example)

text \<open>
  Claim C7, where the code departs from it.  The claim, like the comments in
  \<^verbatim>\<open>handleEdit\<close> (the format is ensured to be \<^verbatim>\<open>YYYY-MM-DD\<close>, for a date that comes as an
  ISO string), asks that an ISO-8601 timestamp in a date field become a \<^verbatim>\<open>YYYY-MM-DD\<close>
  string in the draft.  The last second of the year 9999 at the zone \<^verbatim>\<open>-01:00\<close> is such a
  timestamp; its instant lies in the UTC year 10000, which \<^verbatim>\<open>toISOString\<close> prints with a
  sign and six digits, and the draft gets \<^verbatim>\<open>+010000-01-01\<close>, which is no calendar date
  of that format and not even of its length.
\<close>

theorem handleEdit_date_beyond_four_digits:
  "handleEdit \<lparr>parse_other = (\<lambda>s. None)\<rparr> RawMaterialCostManager
     [(''_id'', JStr ''66a1''), (''product_id'', JStr ''PRD001''), (''supplier_id'', JStr ''SUP001''),
      (''cost_per_unit'', JNum ''10.5''), (''currency'', JStr ''USD''),
      (''effective_date'', JStr ''9999-12-31T23:59:59-01:00'')]
     (initial_state\<lparr>
        entities := JArr [JObj
          [(''_id'', JStr ''66a1''), (''product_id'', JStr ''PRD001''),
           (''supplier_id'', JStr ''SUP001''), (''cost_per_unit'', JNum ''10.5''),
           (''currency'', JStr ''USD''), (''effective_date'', JStr ''9999-12-31T23:59:59-01:00'')]],
        loading := False\<rparr>) =
   Inr (initial_state\<lparr>
        entities := JArr [JObj
          [(''_id'', JStr ''66a1''), (''product_id'', JStr ''PRD001''),
           (''supplier_id'', JStr ''SUP001''), (''cost_per_unit'', JNum ''10.5''),
           (''currency'', JStr ''USD''), (''effective_date'', JStr ''9999-12-31T23:59:59-01:00'')]],
        loading := False,
        formData :=
                  [(''_id'', JStr ''66a1''), (''product_id'', JStr ''PRD001''),
                   (''supplier_id'', JStr ''SUP001''), (''cost_per_unit'', JNum ''10.5''),
                   (''currency'', JStr ''USD''), (''effective_date'', JStr ''+010000-01-01'')],
                isEditing := True, editId := JStr ''66a1'',
                editIdentifier :=
                  [(''product_id'', JStr ''PRD001''), (''supplier_id'', JStr ''SUP001''),
                   (''effective_date'', JStr ''9999-12-31T23:59:59-01:00'')]\<rparr>) \<and>
   parse_ymd ''+010000-01-01'' = None \<and>
   length ''+010000-01-01'' \<noteq> length ''YYYY-MM-DD''"
  by (simp add: handleEdit_cost_record date_only_iso [OF parse_iso_far] iso_date_far parse_ymd_def)

section \<open>The identifier path\<close>

text \<open>
  Claim C1.  For every schema \<open>p\<close> and record \<open>r\<close>: the first request of a confirmed
  \<^verbatim>\<open>handleDelete\<close> of \<open>r\<close> is a \<^verbatim>\<open>DELETE\<close> whose URL is the base, the endpoint,
  a slash and the values of \<open>r\<close> at the \<^verbatim>\<open>uniqueIdentifierFields\<close>, in their declared
  order, joined by slashes; and once \<^verbatim>\<open>handleEdit\<close> has loaded \<open>r\<close>, whatever the user then
  types into the form (\<open>cs\<close>), the first request of \<^verbatim>\<open>handleSubmit\<close> is a \<^verbatim>\<open>PUT\<close>
  to the same URL, built from the values of \<open>r\<close> and not from the draft, which is its body.
  The witness runs the 2-field Store Limit schema (Scenario B of the specification), the
  3-field Raw Material Cost schema and the 1-field Supplier schema.
\<close>

theorem identifier_path:
  "take 1 (requests (snd (handleDelete p r True fr fr' s))) =
     [request_of (endpoint p @ ''/'' @ join ''/'' (map (get r) (uniqueIdentifierFields p)))
        ''DELETE'' JNull] \<and>
   (\<forall>s1. handleEdit h p r s = Inr s1 \<longrightarrow>
      take 1 (requests (snd (handleSubmit p fr fr' (input_changes cs s1)))) =
        [request_of (endpoint p @ ''/'' @ join ''/'' (map (get r) (uniqueIdentifierFields p)))
           ''PUT'' (JObj (formData (input_changes cs s1)))])"
proof -
  have ip: "identifierPath ids ob = join ''/'' (map (get ob) ids)" for ids ob
    by (simp add: identifierPath_def)
  have d: "take 1 (requests (snd (handleDelete p r True fr fr' s))) =
     [request_of (endpoint p @ ''/'' @ join ''/'' (map (get r) (uniqueIdentifierFields p)))
        ''DELETE'' JNull]"
    using handleDelete_first_request [of p r fr fr' s] unfolding ip .
  have u: "take 1 (requests (snd (handleSubmit p fr fr' (input_changes cs s1)))) =
        [request_of (endpoint p @ ''/'' @ join ''/'' (map (get r) (uniqueIdentifierFields p)))
           ''PUT'' (JObj (formData (input_changes cs s1)))]"
    if e: "handleEdit h p r s = Inr s1" for s1
  proof -
    have "isEditing (input_changes cs s1)"
      using handleEdit_Inr(2) [OF e] by (simp add: input_changes_frame)
    moreover have "editIdentifier (input_changes cs s1) =
        captureIdentifier (uniqueIdentifierFields p) r []"
      using handleEdit_Inr(3) [OF e] by (simp add: input_changes_frame)
    ultimately show ?thesis
      using handleSubmit_first_request [of p fr fr' "input_changes cs s1"]
      by (simp add: ip captured_values)
  qed
  show ?thesis using d u by blast
qed


lemma handleEdit_supplier_record:
  "handleEdit h SupplierManager
     [(''_id'', i), (''supplier_id'', sid), (''supplier_name'', n), (''supplier_location_id'', l)] s =
   Inr (s\<lparr>formData :=
            [(''_id'', i), (''supplier_id'', sid), (''supplier_name'', n),
             (''supplier_location_id'', l)],
          isEditing := True, editId := i,
          editIdentifier := [(''supplier_id'', sid)]\<rparr>)"
  by (simp add: handleEdit_def SupplierManager_def form_field_def get_def set_prop_def)

theorem identifier_path_witness:
  "take 1 (requests (snd (handleDelete StoreLimitManager
       [(''_id'', JStr ''66b2''), (''product_id'', JStr ''PRD003''), (''location_id'', JStr ''LOC004''),
        (''base_limit'', JNum ''10''), (''max_limit'', JNum ''100'')]
       True (Responded True (JObj [])) (Responded True (JArr []))
       (initial_state\<lparr>loading := False\<rparr>)))) =
     [\<lparr>url = ''http://localhost:5000/api/store_limits/PRD003/LOC004'', http_method = ''DELETE'',
       headers = [(''Content-Type'', ''application/json'')], body = None\<rparr>] \<and>
   take 1 (requests (snd (handleDelete RawMaterialCostManager
       [(''_id'', JStr ''66a1''), (''product_id'', JStr ''PRD001''), (''supplier_id'', JStr ''SUP001''),
        (''cost_per_unit'', JNum ''10''), (''currency'', JStr ''USD''),
        (''effective_date'', JStr ''2024-03-05'')]
       True (Responded True (JObj [])) (Responded True (JArr []))
       (initial_state\<lparr>loading := False\<rparr>)))) =
     [\<lparr>url = ''http://localhost:5000/api/raw_material_costs/PRD001/SUP001/2024-03-05'',
       http_method = ''DELETE'',
       headers = [(''Content-Type'', ''application/json'')], body = None\<rparr>] \<and>
   handleEdit \<lparr>parse_other = (\<lambda>s. None)\<rparr> SupplierManager
     [(''_id'', JStr ''66c3''), (''supplier_id'', JStr ''SUP001''),
      (''supplier_name'', JStr ''Silicon Inc.''), (''supplier_location_id'', JStr ''LOC001'')]
     (initial_state\<lparr>loading := False\<rparr>) =
     Inr (initial_state\<lparr>loading := False,
          formData :=
            [(''_id'', JStr ''66c3''), (''supplier_id'', JStr ''SUP001''),
             (''supplier_name'', JStr ''Silicon Inc.''), (''supplier_location_id'', JStr ''LOC001'')],
          isEditing := True, editId := JStr ''66c3'',
          editIdentifier := [(''supplier_id'', JStr ''SUP001'')]\<rparr>) \<and>
   take 1 (requests (snd (handleSubmit SupplierManager (Responded True (JObj [])) (Responded True (JArr []))
       (input_changes [(''supplier_id'', ''SUP999'', ''text'', False)]
          (initial_state\<lparr>loading := False,
             formData :=
               [(''_id'', JStr ''66c3''), (''supplier_id'', JStr ''SUP001''),
                (''supplier_name'', JStr ''Silicon Inc.''), (''supplier_location_id'', JStr ''LOC001'')],
             isEditing := True, editId := JStr ''66c3'',
             editIdentifier := [(''supplier_id'', JStr ''SUP001'')]\<rparr>))))) =
     [\<lparr>url = ''http://localhost:5000/api/suppliers/SUP001'', http_method = ''PUT'',
       headers = [(''Content-Type'', ''application/json'')],
       body = Some (JObj [(''_id'', JStr ''66c3''), (''supplier_id'', JStr ''SUP999''),
                (''supplier_name'', JStr ''Silicon Inc.''), (''supplier_location_id'', JStr ''LOC001'')])\<rparr>]"
proof -
  let ?h = "\<lparr>parse_other = (\<lambda>s. None)\<rparr>"
  let ?ok = "Responded True (JObj [])"
  let ?ok' = "Responded True (JArr [])"
  let ?s = "initial_state\<lparr>loading := False\<rparr>"
  let ?sup = "[(''_id'', JStr ''66c3''), (''supplier_id'', JStr ''SUP001''),
      (''supplier_name'', JStr ''Silicon Inc.''), (''supplier_location_id'', JStr ''LOC001'')]"
  let ?s1 = "initial_state\<lparr>loading := False, formData := ?sup,
          isEditing := True, editId := JStr ''66c3'',
          editIdentifier := [(''supplier_id'', JStr ''SUP001'')]\<rparr>"
  have e: "handleEdit ?h SupplierManager ?sup ?s = Inr ?s1"
    by (simp add: handleEdit_supplier_record)
  note a = identifier_path [where p = StoreLimitManager and h = ?h and fr = ?ok and fr' = ?ok'
      and s = ?s and cs = "[]"
      and r = "[(''_id'', JStr ''66b2''), (''product_id'', JStr ''PRD003''), (''location_id'', JStr ''LOC004''),
        (''base_limit'', JNum ''10''), (''max_limit'', JNum ''100'')]"]
  note b = identifier_path [where p = RawMaterialCostManager and h = ?h and fr = ?ok and fr' = ?ok'
      and s = ?s and cs = "[]"
      and r = "[(''_id'', JStr ''66a1''), (''product_id'', JStr ''PRD001''), (''supplier_id'', JStr ''SUP001''),
        (''cost_per_unit'', JNum ''10''), (''currency'', JStr ''USD''),
        (''effective_date'', JStr ''2024-03-05'')]"]
  note c = identifier_path [where p = SupplierManager and h = ?h and fr = ?ok and fr' = ?ok'
      and s = ?s and cs = "[(''supplier_id'', ''SUP999'', ''text'', False)]" and r = ?sup]
  from c e have c': "take 1 (requests (snd (handleSubmit SupplierManager ?ok ?ok'
       (input_changes [(''supplier_id'', ''SUP999'', ''text'', False)] ?s1)))) =
        [request_of (endpoint SupplierManager @ ''/'' @ join ''/'' (map (get ?sup) (uniqueIdentifierFields SupplierManager)))
           ''PUT'' (JObj (formData (input_changes [(''supplier_id'', ''SUP999'', ''text'', False)] ?s1)))]"
    by blast
  show ?thesis
    using a b c' e
    by (simp add: request_of_def API_BASE_URL_def join_def get_def set_prop_def input_changes_def
        handleInputChange_def StoreLimitManager_def RawMaterialCostManager_def SupplierManager_def
        initial_state_def)
qed

section \<open>The captured identifier over an edit\<close>

lemma normalizeDates_no_dates:
  "\<forall>f \<in> set fs. type f \<noteq> ''date'' \<Longrightarrow> normalizeDates h fs ob = Inr ob"
  by (induction fs arbitrary: ob) simp_all

lemma handleEdit_store_limit_record:
  "handleEdit h StoreLimitManager
     [(''_id'', i), (''product_id'', pid), (''location_id'', lid), (''base_limit'', b),
      (''max_limit'', m)] s =
   Inr (s\<lparr>formData :=
            [(''_id'', i), (''product_id'', pid), (''location_id'', lid), (''base_limit'', b),
             (''max_limit'', m)],
          isEditing := True, editId := i,
          editIdentifier := [(''product_id'', pid), (''location_id'', lid)]\<rparr>)"
  by (simp add: handleEdit_def StoreLimitManager_def form_field_def get_def set_prop_def)

text \<open>
  Claim C2, as amended.  Let \<^verbatim>\<open>handleEdit\<close> have loaded the record \<open>r\<close>, whatever requests
  are in flight at that moment, and let any schedule of calls and answers follow (input
  changes, submits, deletes, cancels, fetches, further calls of \<^verbatim>\<open>handleEdit\<close>, and the
  network settling any request in flight with any answer) after which the component is in
  Edit mode.  Then the captured identifier reads, at the identifier fields, as the record
  that the last \<^verbatim>\<open>handleEdit\<close> to return has loaded, and a submit sends its \<^verbatim>\<open>PUT\<close> to
  the path built from the values of that record, with the current draft as body.  That
  record is \<open>r\<close> when the schedule holds no call of \<^verbatim>\<open>handleEdit\<close>: from the call that
  loaded \<open>r\<close> until the mode ends or another record is loaded, the tuple is the one of \<open>r\<close>.
  Submitted at once, the body is the draft \<^verbatim>\<open>handleEdit\<close> built: the copy of all the
  fields of \<open>r\<close> that the loop over the form fields returns, equal to \<open>r\<close> at every key that
  is not the name of a date-typed form field, and equal to \<open>r\<close> itself when the schema has
  no date-typed field.
\<close>

theorem captured_identifier:
  assumes "handleEdit h p r s = Inr s1"
  shows "(\<forall>ms ks. isEditing (fst (play h p ms (s1, ks))) \<longrightarrow>
            map (get (editIdentifier (fst (play h p ms (s1, ks))))) (uniqueIdentifierFields p) =
              map (get (last_loaded h p ms r)) (uniqueIdentifierFields p) \<and>
            take 1 (requests (snd (handleSubmit p fr fr' (fst (play h p ms (s1, ks)))))) =
              [request_of
                 (endpoint p @ ''/'' @
                  join ''/'' (map (get (last_loaded h p ms r)) (uniqueIdentifierFields p)))
                 ''PUT'' (JObj (formData (fst (play h p ms (s1, ks)))))]) \<and>
         (\<forall>ms. list_all (\<lambda>mv. \<not> loads_record mv) ms \<longrightarrow> last_loaded h p ms r = r) \<and>
         take 1 (requests (snd (handleSubmit p fr fr' s1))) =
           [request_of (endpoint p @ ''/'' @ join ''/'' (map (get r) (uniqueIdentifierFields p)))
              ''PUT'' (JObj (formData s1))] \<and>
         normalizeDates h (formFields p) r = Inr (formData s1) \<and>
         (\<forall>k. k \<notin> name ` {f \<in> set (formFields p). type f = ''date''} \<longrightarrow>
              get (formData s1) k = get r k) \<and>
         ((\<forall>f \<in> set (formFields p). type f \<noteq> ''date'') \<longrightarrow> formData s1 = r)"
proof -
  note e = handleEdit_Inr [OF assms]
  have ip: "identifierPath ids ob = join ''/'' (map (get ob) ids)" for ids ob
    by (simp add: identifierPath_def)
  have inv: "map (get (editIdentifier (fst (play h p ms (s1, ks))))) (uniqueIdentifierFields p) =
              map (get (last_loaded h p ms r)) (uniqueIdentifierFields p) \<and>
            take 1 (requests (snd (handleSubmit p fr fr' (fst (play h p ms (s1, ks)))))) =
              [request_of
                 (endpoint p @ ''/'' @
                  join ''/'' (map (get (last_loaded h p ms r)) (uniqueIdentifierFields p)))
                 ''PUT'' (JObj (formData (fst (play h p ms (s1, ks)))))]"
    if b: "isEditing (fst (play h p ms (s1, ks)))" for ms ks
  proof -
    have k: "editIdentifier (fst (play h p ms (s1, ks))) =
        captureIdentifier (uniqueIdentifierFields p) (last_loaded h p ms r) []"
      using play_last_loaded [of "(s1, ks)" p r h ms] b e(3) by simp
    show ?thesis
      using handleSubmit_first_request [of p fr fr' "fst (play h p ms (s1, ks))"] b
      by (simp add: k captured_values ip)
  qed
  have first: "take 1 (requests (snd (handleSubmit p fr fr' s1))) =
           [request_of (endpoint p @ ''/'' @ join ''/'' (map (get r) (uniqueIdentifierFields p)))
              ''PUT'' (JObj (formData s1))]"
    using inv [of "[]" "[]"] e(2) by (simp add: play_def)
  have other: "get (formData s1) k = get r k"
    if "k \<notin> name ` {f \<in> set (formFields p). type f = ''date''}" for k
    using normalizeDates_other [OF e(1) that] .
  have nod: "formData s1 = r" if "\<forall>f \<in> set (formFields p). type f \<noteq> ''date''"
    using normalizeDates_no_dates [OF that, of h r] e(1) by simp
  show ?thesis
    using inv first e(1) other nod last_loaded_no_loads by blast
qed

text \<open>A store limit is loaded from the table; the user retypes the location input (the
  product input is the disabled one) and submits, declines a delete while the \<^verbatim>\<open>PUT\<close> is
  in flight, and the \<^verbatim>\<open>PUT\<close> is rejected.  The next submit still addresses
  \<^verbatim>\<open>PRD003/LOC004\<close>, with the retyped location in its body.\<close>

theorem captured_identifier_witness:
  "handleEdit \<lparr>parse_other = (\<lambda>s. None)\<rparr> StoreLimitManager
     [(''_id'', JStr ''66b2''), (''product_id'', JStr ''PRD003''), (''location_id'', JStr ''LOC004''),
      (''base_limit'', JNum ''10''), (''max_limit'', JNum ''100'')]
     (initial_state\<lparr>
        entities := JArr [JObj
          [(''_id'', JStr ''66b2''), (''product_id'', JStr ''PRD003''),
           (''location_id'', JStr ''LOC004''), (''base_limit'', JNum ''10''),
           (''max_limit'', JNum ''100'')]],
        loading := False\<rparr>) =
     Inr (initial_state\<lparr>
        entities := JArr [JObj
          [(''_id'', JStr ''66b2''), (''product_id'', JStr ''PRD003''),
           (''location_id'', JStr ''LOC004''), (''base_limit'', JNum ''10''),
           (''max_limit'', JNum ''100'')]],
        loading := False,
        formData :=
          [(''_id'', JStr ''66b2''), (''product_id'', JStr ''PRD003''),
           (''location_id'', JStr ''LOC004''), (''base_limit'', JNum ''10''),
           (''max_limit'', JNum ''100'')],
        isEditing := True, editId := JStr ''66b2'',
        editIdentifier := [(''product_id'', JStr ''PRD003''), (''location_id'', JStr ''LOC004'')]\<rparr>) \<and>
   play \<lparr>parse_other = (\<lambda>s. None)\<rparr> StoreLimitManager
     [Call_handleInputChange ''location_id'' ''LOC999'' ''text'' False,
      Call_handleSubmit,
      Call_handleDelete
        [(''_id'', JStr ''66b2''), (''product_id'', JStr ''PRD003''),
         (''location_id'', JStr ''LOC004''), (''base_limit'', JNum ''10''),
         (''max_limit'', JNum ''100'')] False,
      Settle 0 (Responded False (JObj [(''error'', JStr ''Store limit not found'')]))]
     (initial_state\<lparr>
        entities := JArr [JObj
          [(''_id'', JStr ''66b2''), (''product_id'', JStr ''PRD003''),
           (''location_id'', JStr ''LOC004''), (''base_limit'', JNum ''10''),
           (''max_limit'', JNum ''100'')]],
        loading := False,
        formData :=
          [(''_id'', JStr ''66b2''), (''product_id'', JStr ''PRD003''),
           (''location_id'', JStr ''LOC004''), (''base_limit'', JNum ''10''),
           (''max_limit'', JNum ''100'')],
        isEditing := True, editId := JStr ''66b2'',
        editIdentifier := [(''product_id'', JStr ''PRD003''), (''location_id'', JStr ''LOC004'')]\<rparr>,
      []) =
     (initial_state\<lparr>
        entities := JArr [JObj
          [(''_id'', JStr ''66b2''), (''product_id'', JStr ''PRD003''),
           (''location_id'', JStr ''LOC004''), (''base_limit'', JNum ''10''),
           (''max_limit'', JNum ''100'')]],
        loading := False,
        formData :=
          [(''_id'', JStr ''66b2''), (''product_id'', JStr ''PRD003''),
           (''location_id'', JStr ''LOC999''), (''base_limit'', JNum ''10''),
           (''max_limit'', JNum ''100'')],
        isEditing := True, editId := JStr ''66b2'',
        editIdentifier := [(''product_id'', JStr ''PRD003''), (''location_id'', JStr ''LOC004'')],
        error := ''Failed to save Store Limit: Store limit not found''\<rparr>, []) \<and>
   take 1 (requests (snd (handleSubmit StoreLimitManager
     (Responded True (JObj [])) (Responded True (JArr []))
     (initial_state\<lparr>
        entities := JArr [JObj
          [(''_id'', JStr ''66b2''), (''product_id'', JStr ''PRD003''),
           (''location_id'', JStr ''LOC004''), (''base_limit'', JNum ''10''),
           (''max_limit'', JNum ''100'')]],
        loading := False,
        formData :=
          [(''_id'', JStr ''66b2''), (''product_id'', JStr ''PRD003''),
           (''location_id'', JStr ''LOC999''), (''base_limit'', JNum ''10''),
           (''max_limit'', JNum ''100'')],
        isEditing := True, editId := JStr ''66b2'',
        editIdentifier := [(''product_id'', JStr ''PRD003''), (''location_id'', JStr ''LOC004'')],
        error := ''Failed to save Store Limit: Store limit not found''\<rparr>)))) =
     [\<lparr>url = ''http://localhost:5000/api/store_limits/PRD003/LOC004'', http_method = ''PUT'',
       headers = [(''Content-Type'', ''application/json'')],
       body = Some (JObj
          [(''_id'', JStr ''66b2''), (''product_id'', JStr ''PRD003''),
           (''location_id'', JStr ''LOC999''), (''base_limit'', JNum ''10''),
           (''max_limit'', JNum ''100'')])\<rparr>]"
proof -
  let ?h = "\<lparr>parse_other = (\<lambda>s. None)\<rparr>"
  let ?r = "[(''_id'', JStr ''66b2''), (''product_id'', JStr ''PRD003''),
           (''location_id'', JStr ''LOC004''), (''base_limit'', JNum ''10''),
           (''max_limit'', JNum ''100'')]"
  let ?r' = "[(''_id'', JStr ''66b2''), (''product_id'', JStr ''PRD003''),
           (''location_id'', JStr ''LOC999''), (''base_limit'', JNum ''10''),
           (''max_limit'', JNum ''100'')]"
  let ?s0 = "initial_state\<lparr>entities := JArr [JObj ?r], loading := False\<rparr>"
  let ?s1 = "initial_state\<lparr>entities := JArr [JObj ?r], loading := False, formData := ?r,
        isEditing := True, editId := JStr ''66b2'',
        editIdentifier := [(''product_id'', JStr ''PRD003''), (''location_id'', JStr ''LOC004'')]\<rparr>"
  let ?ms = "[Call_handleInputChange ''location_id'' ''LOC999'' ''text'' False,
      Call_handleSubmit,
      Call_handleDelete ?r False,
      Settle 0 (Responded False (JObj [(''error'', JStr ''Store limit not found'')]))]"
  let ?s2 = "initial_state\<lparr>entities := JArr [JObj ?r], loading := False, formData := ?r',
        isEditing := True, editId := JStr ''66b2'',
        editIdentifier := [(''product_id'', JStr ''PRD003''), (''location_id'', JStr ''LOC004'')],
        error := ''Failed to save Store Limit: Store limit not found''\<rparr>"
  have e: "handleEdit ?h StoreLimitManager ?r ?s0 = Inr ?s1"
    by (simp add: handleEdit_store_limit_record)
  have r: "play ?h StoreLimitManager ?ms (?s1, []) = (?s2, [])"
    by (simp add: play_def handleInputChange_def set_prop_def handleSubmit_start_def
        handleSubmit_resume_def response_outcome_error_field get_def
        initial_state_def StoreLimitManager_def)
  have b: "isEditing (fst (play ?h StoreLimitManager ?ms (?s1, [])))"
    unfolding r by simp
  have l: "last_loaded ?h StoreLimitManager ?ms ?r = ?r"
    by simp
  from captured_identifier [OF e, of "Responded True (JObj [])" "Responded True (JArr [])"] b
  have "take 1 (requests (snd (handleSubmit StoreLimitManager (Responded True (JObj []))
          (Responded True (JArr [])) (fst (play ?h StoreLimitManager ?ms (?s1, [])))))) =
      [request_of (endpoint StoreLimitManager @ ''/'' @
           join ''/'' (map (get (last_loaded ?h StoreLimitManager ?ms ?r))
             (uniqueIdentifierFields StoreLimitManager)))
         ''PUT'' (JObj (formData (fst (play ?h StoreLimitManager ?ms (?s1, [])))))]"
    by blast
  then have t: "take 1 (requests (snd (handleSubmit StoreLimitManager (Responded True (JObj []))
          (Responded True (JArr [])) ?s2))) =
     [\<lparr>url = ''http://localhost:5000/api/store_limits/PRD003/LOC004'', http_method = ''PUT'',
       headers = [(''Content-Type'', ''application/json'')],
       body = Some (JObj ?r')\<rparr>]"
    unfolding r l
    by (simp add: request_of_def API_BASE_URL_def join_def get_def StoreLimitManager_def
        initial_state_def)
  show ?thesis
    using e r t by blast
qed

text \<open>The claim as the specification words it fails twice.  On the Supplier page, with
  \<^verbatim>\<open>SUP001\<close> loaded and Edit mode never left, a click on the Edit button of \<^verbatim>\<open>SUP002\<close>
  replaces the captured identifier, and the \<^verbatim>\<open>PUT\<close> goes to \<^verbatim>\<open>SUP002\<close>.  On the raw
  material cost page, the body of an unmodified submit differs from the editable fields of the
  record: the editable field \<^verbatim>\<open>effective_date\<close> goes out normalized.\<close>

theorem second_edit_and_normalized_body:
  "handleEdit \<lparr>parse_other = (\<lambda>s. None)\<rparr> SupplierManager
     [(''_id'', JStr ''66c3''), (''supplier_id'', JStr ''SUP001''),
      (''supplier_name'', JStr ''Silicon Inc.''), (''supplier_location_id'', JStr ''LOC001'')]
     (initial_state\<lparr>
        entities := JArr
          [JObj [(''_id'', JStr ''66c3''), (''supplier_id'', JStr ''SUP001''),
                 (''supplier_name'', JStr ''Silicon Inc.''), (''supplier_location_id'', JStr ''LOC001'')],
           JObj [(''_id'', JStr ''66c4''), (''supplier_id'', JStr ''SUP002''),
                 (''supplier_name'', JStr ''Copper Ltd.''), (''supplier_location_id'', JStr ''LOC002'')]],
        loading := False\<rparr>) =
     Inr (initial_state\<lparr>
        entities := JArr
          [JObj [(''_id'', JStr ''66c3''), (''supplier_id'', JStr ''SUP001''),
                 (''supplier_name'', JStr ''Silicon Inc.''), (''supplier_location_id'', JStr ''LOC001'')],
           JObj [(''_id'', JStr ''66c4''), (''supplier_id'', JStr ''SUP002''),
                 (''supplier_name'', JStr ''Copper Ltd.''), (''supplier_location_id'', JStr ''LOC002'')]],
        loading := False,
        formData :=
          [(''_id'', JStr ''66c3''), (''supplier_id'', JStr ''SUP001''),
           (''supplier_name'', JStr ''Silicon Inc.''), (''supplier_location_id'', JStr ''LOC001'')],
        isEditing := True, editId := JStr ''66c3'',
        editIdentifier := [(''supplier_id'', JStr ''SUP001'')]\<rparr>) \<and>
   play \<lparr>parse_other = (\<lambda>s. None)\<rparr> SupplierManager
     [Call_handleEdit
        [(''_id'', JStr ''66c4''), (''supplier_id'', JStr ''SUP002''),
         (''supplier_name'', JStr ''Copper Ltd.''), (''supplier_location_id'', JStr ''LOC002'')]]
     (initial_state\<lparr>
        entities := JArr
          [JObj [(''_id'', JStr ''66c3''), (''supplier_id'', JStr ''SUP001''),
                 (''supplier_name'', JStr ''Silicon Inc.''), (''supplier_location_id'', JStr ''LOC001'')],
           JObj [(''_id'', JStr ''66c4''), (''supplier_id'', JStr ''SUP002''),
                 (''supplier_name'', JStr ''Copper Ltd.''), (''supplier_location_id'', JStr ''LOC002'')]],
        loading := False,
        formData :=
          [(''_id'', JStr ''66c3''), (''supplier_id'', JStr ''SUP001''),
           (''supplier_name'', JStr ''Silicon Inc.''), (''supplier_location_id'', JStr ''LOC001'')],
        isEditing := True, editId := JStr ''66c3'',
        editIdentifier := [(''supplier_id'', JStr ''SUP001'')]\<rparr>, []) =
     (initial_state\<lparr>
        entities := JArr
          [JObj [(''_id'', JStr ''66c3''), (''supplier_id'', JStr ''SUP001''),
                 (''supplier_name'', JStr ''Silicon Inc.''), (''supplier_location_id'', JStr ''LOC001'')],
           JObj [(''_id'', JStr ''66c4''), (''supplier_id'', JStr ''SUP002''),
                 (''supplier_name'', JStr ''Copper Ltd.''), (''supplier_location_id'', JStr ''LOC002'')]],
        loading := False,
        formData :=
          [(''_id'', JStr ''66c4''), (''supplier_id'', JStr ''SUP002''),
           (''supplier_name'', JStr ''Copper Ltd.''), (''supplier_location_id'', JStr ''LOC002'')],
        isEditing := True, editId := JStr ''66c4'',
        editIdentifier := [(''supplier_id'', JStr ''SUP002'')]\<rparr>, []) \<and>
   map url (take 1 (requests (snd (handleSubmit SupplierManager
     (Responded True (JObj [])) (Responded True (JArr []))
     (initial_state\<lparr>
        entities := JArr
          [JObj [(''_id'', JStr ''66c3''), (''supplier_id'', JStr ''SUP001''),
                 (''supplier_name'', JStr ''Silicon Inc.''), (''supplier_location_id'', JStr ''LOC001'')],
           JObj [(''_id'', JStr ''66c4''), (''supplier_id'', JStr ''SUP002''),
                 (''supplier_name'', JStr ''Copper Ltd.''), (''supplier_location_id'', JStr ''LOC002'')]],
        loading := False,
        formData :=
          [(''_id'', JStr ''66c4''), (''supplier_id'', JStr ''SUP002''),
           (''supplier_name'', JStr ''Copper Ltd.''), (''supplier_location_id'', JStr ''LOC002'')],
        isEditing := True, editId := JStr ''66c4'',
        editIdentifier := [(''supplier_id'', JStr ''SUP002'')]\<rparr>))))) =
     [''http://localhost:5000/api/suppliers/SUP002''] \<and>
   handleEdit \<lparr>parse_other = (\<lambda>s. None)\<rparr> RawMaterialCostManager
     [(''_id'', JStr ''66a1''), (''product_id'', JStr ''PRD001''), (''supplier_id'', JStr ''SUP001''),
      (''cost_per_unit'', JNum ''10.5''), (''currency'', JStr ''USD''),
      (''effective_date'', JStr ''2024-03-05T00:00:00Z'')]
     (initial_state\<lparr>
          entities := JArr [JObj
            [(''_id'', JStr ''66a1''), (''product_id'', JStr ''PRD001''),
             (''supplier_id'', JStr ''SUP001''), (''cost_per_unit'', JNum ''10.5''),
             (''currency'', JStr ''USD''), (''effective_date'', JStr ''2024-03-05T00:00:00Z'')]],
          loading := False\<rparr>) =
     Inr (initial_state\<lparr>
          entities := JArr [JObj
            [(''_id'', JStr ''66a1''), (''product_id'', JStr ''PRD001''),
             (''supplier_id'', JStr ''SUP001''), (''cost_per_unit'', JNum ''10.5''),
             (''currency'', JStr ''USD''), (''effective_date'', JStr ''2024-03-05T00:00:00Z'')]],
          loading := False,
          formData :=
            [(''_id'', JStr ''66a1''), (''product_id'', JStr ''PRD001''),
             (''supplier_id'', JStr ''SUP001''), (''cost_per_unit'', JNum ''10.5''),
             (''currency'', JStr ''USD''), (''effective_date'', JStr ''2024-03-05'')],
          isEditing := True, editId := JStr ''66a1'',
          editIdentifier :=
            [(''product_id'', JStr ''PRD001''), (''supplier_id'', JStr ''SUP001''),
             (''effective_date'', JStr ''2024-03-05T00:00:00Z'')]\<rparr>) \<and>
   map body (requests (snd (handleSubmit RawMaterialCostManager
       (Responded True (JObj [])) (Responded True (JArr []))
       (initial_state\<lparr>
          entities := JArr [JObj
            [(''_id'', JStr ''66a1''), (''product_id'', JStr ''PRD001''),
             (''supplier_id'', JStr ''SUP001''), (''cost_per_unit'', JNum ''10.5''),
             (''currency'', JStr ''USD''), (''effective_date'', JStr ''2024-03-05T00:00:00Z'')]],
          loading := False,
          formData :=
            [(''_id'', JStr ''66a1''), (''product_id'', JStr ''PRD001''),
             (''supplier_id'', JStr ''SUP001''), (''cost_per_unit'', JNum ''10.5''),
             (''currency'', JStr ''USD''), (''effective_date'', JStr ''2024-03-05'')],
          isEditing := True, editId := JStr ''66a1'',
          editIdentifier :=
            [(''product_id'', JStr ''PRD001''), (''supplier_id'', JStr ''SUP001''),
             (''effective_date'', JStr ''2024-03-05T00:00:00Z'')]\<rparr>)))) =
     [Some (JObj [(''_id'', JStr ''66a1''), (''product_id'', JStr ''PRD001''),
                  (''supplier_id'', JStr ''SUP001''), (''cost_per_unit'', JNum ''10.5''),
                  (''currency'', JStr ''USD''), (''effective_date'', JStr ''2024-03-05'')]),
      None] \<and>
   editable_fields RawMaterialCostManager
     [(''_id'', JStr ''66a1''), (''product_id'', JStr ''PRD001''),
      (''supplier_id'', JStr ''SUP001''), (''cost_per_unit'', JNum ''10.5''),
      (''currency'', JStr ''USD''), (''effective_date'', JStr ''2024-03-05'')] \<noteq>
   editable_fields RawMaterialCostManager
     [(''_id'', JStr ''66a1''), (''product_id'', JStr ''PRD001''), (''supplier_id'', JStr ''SUP001''),
      (''cost_per_unit'', JNum ''10.5''), (''currency'', JStr ''USD''),
      (''effective_date'', JStr ''2024-03-05T00:00:00Z'')]"
proof -
  let ?h = "\<lparr>parse_other = (\<lambda>s. None)\<rparr>"
  let ?a = "[(''_id'', JStr ''66c3''), (''supplier_id'', JStr ''SUP001''),
      (''supplier_name'', JStr ''Silicon Inc.''), (''supplier_location_id'', JStr ''LOC001'')]"
  let ?b = "[(''_id'', JStr ''66c4''), (''supplier_id'', JStr ''SUP002''),
      (''supplier_name'', JStr ''Copper Ltd.''), (''supplier_location_id'', JStr ''LOC002'')]"
  let ?s0 = "initial_state\<lparr>entities := JArr [JObj ?a, JObj ?b], loading := False\<rparr>"
  let ?s1 = "initial_state\<lparr>entities := JArr [JObj ?a, JObj ?b], loading := False,
        formData := ?a, isEditing := True, editId := JStr ''66c3'',
        editIdentifier := [(''supplier_id'', JStr ''SUP001'')]\<rparr>"
  let ?s2 = "initial_state\<lparr>entities := JArr [JObj ?a, JObj ?b], loading := False,
        formData := ?b, isEditing := True, editId := JStr ''66c4'',
        editIdentifier := [(''supplier_id'', JStr ''SUP002'')]\<rparr>"
  let ?c = "[(''_id'', JStr ''66a1''), (''product_id'', JStr ''PRD001''), (''supplier_id'', JStr ''SUP001''),
      (''cost_per_unit'', JNum ''10.5''), (''currency'', JStr ''USD''),
      (''effective_date'', JStr ''2024-03-05T00:00:00Z'')]"
  let ?d = "[(''_id'', JStr ''66a1''), (''product_id'', JStr ''PRD001''),
             (''supplier_id'', JStr ''SUP001''), (''cost_per_unit'', JNum ''10.5''),
             (''currency'', JStr ''USD''), (''effective_date'', JStr ''2024-03-05'')]"
  let ?t0 = "initial_state\<lparr>entities := JArr [JObj ?c], loading := False\<rparr>"
  let ?t1 = "initial_state\<lparr>entities := JArr [JObj ?c], loading := False, formData := ?d, isEditing := True,
          editId := JStr ''66a1'',
          editIdentifier :=
            [(''product_id'', JStr ''PRD001''), (''supplier_id'', JStr ''SUP001''),
             (''effective_date'', JStr ''2024-03-05T00:00:00Z'')]\<rparr>"
  have e1: "handleEdit ?h SupplierManager ?a ?s0 = Inr ?s1"
    by (simp add: handleEdit_supplier_record)
  have e2: "play ?h SupplierManager [Call_handleEdit ?b] (?s1, []) = (?s2, [])"
    by (simp add: play_def handleEdit_supplier_record)
  have e3: "map url (take 1 (requests (snd (handleSubmit SupplierManager
       (Responded True (JObj [])) (Responded True (JArr [])) ?s2)))) =
     [''http://localhost:5000/api/suppliers/SUP002'']"
    using handleSubmit_first_request [of SupplierManager "Responded True (JObj [])"
        "Responded True (JArr [])" ?s2]
    by (simp add: identifierPath_def request_of_def API_BASE_URL_def join_def get_def
        SupplierManager_def initial_state_def)
  have a: "handleEdit ?h RawMaterialCostManager ?c ?t0 = Inr ?t1"
    by (simp add: handleEdit_cost_record date_only_iso [OF parse_iso_example] iso_date_example)
  have b: "map body (requests (snd (handleSubmit RawMaterialCostManager
       (Responded True (JObj [])) (Responded True (JArr [])) ?t1))) = [Some (JObj ?d), None]"
    by (simp add: handleSubmit_success fetchEntities_requests requests_append request_of_def)
  have c: "editable_fields RawMaterialCostManager ?d \<noteq> editable_fields RawMaterialCostManager ?c"
    by (simp add: editable_fields_def RawMaterialCostManager_def form_field_def get_def)
  show ?thesis
    using e1 e2 e3 a b c by simp
qed


section \<open>The failures of the transport adapter\<close>

text \<open>
  What the adapter does where the claim holds.  A rejected \<^verbatim>\<open>fetch\<close> or
  \<^verbatim>\<open>response.json()\<close> fails with the underlying error; a status that is not a success,
  with a parsed body other than \<^verbatim>\<open>null\<close>, fails with the body's \<^verbatim>\<open>error\<close> field when
  that is truthy and with \<^verbatim>\<open>Something went wrong\<close> otherwise; and every failure is logged
  after the request and before it reaches the caller (lemma \<open>apiCall_failure_logged\<close>).
\<close>

lemma apiCall_transport_failure:
  "fst (apiCall ep m d (FetchRejected e)) = Inl e"
  "fst (apiCall ep m d (JsonRejected ok e)) = Inl e"
  by (simp_all add: apiCall_def response_outcome_def Let_def)

lemma apiCall_non_success:
  assumes "result \<noteq> JNull" "result \<noteq> JUndefined"
  shows "fst (apiCall ep m d (Responded False result)) =
     Inl (Error (case result of
                   JObj kvs \<Rightarrow>
                     (if truthy (get kvs ''error'') then ToString (get kvs ''error'')
                      else ''Something went wrong'')
                 | _ \<Rightarrow> ''Something went wrong''))"
  using assms
  by (cases result) (simp_all add: apiCall_def response_outcome_def read_error_def js_or_def Let_def)

text \<open>
  Claim C8, where the code departs from it.  A response whose status is not a success and
  whose body is the JSON value \<^verbatim>\<open>null\<close> has no \<^verbatim>\<open>error\<close> field, and the claim (like the
  comment above the \<^verbatim>\<open>throw\<close> in \<^verbatim>\<open>api.js\<close>) asks for the generic message.  The
  adapter instead fails with the \<^verbatim>\<open>TypeError\<close> that reading \<^verbatim>\<open>result.error\<close> raises,
  which it logs and rethrows.
\<close>

theorem apiCall_null_body:
  "apiCall ep m d (Responded False JNull) =
     (Inl (TypeError (''Cannot read properties of null (reading '' @ [CHR 0x27] @ ''error'' @
                      [CHR 0x27] @ '')'')),
      [Fetch (request_of ep m d),
       ConsoleError (''API Call Error ('' @ m @ '' '' @ API_BASE_URL @ ep @ ''):'')
         (TypeError (''Cannot read properties of null (reading '' @ [CHR 0x27] @ ''error'' @
                      [CHR 0x27] @ '')''))]) \<and>
   fst (apiCall ep m d (Responded False JNull)) \<noteq> Inl (Error ''Something went wrong'')"
  by (simp add: apiCall_def response_outcome_def read_error_def request_of_def Let_def)


end
